theory Spec2Isabelle
  imports Main "HOL-Library.Word" "HOL-Library.Sublist"
begin

section \<open>Strings\<close>

text \<open>
  A JavaScript string is a sequence of UTF-16 code units. The literals of the source are
  ASCII; \<open>str\<close> turns such a literal into its code units.
\<close>

type_synonym jsstring = "16 word list"

definition str :: "string \<Rightarrow> jsstring" where
  "str s = map of_char s"

text \<open>\<^verbatim>\<open>s.includes(t)\<close>: \<open>t\<close> occurs in \<open>s\<close> as a contiguous run of code units.\<close>

definition String_includes :: "jsstring \<Rightarrow> jsstring \<Rightarrow> bool" where
  "String_includes s t = sublist t s"

section \<open>The error sanitizer\<close>

text \<open>
  The three regular expressions of \<^verbatim>\<open>sanitizeErrorMessage\<close> have one shape: a literal text
  followed by the capture group \<^verbatim>\<open>(.*)\<close>. None has a flag, so the dot matches every code unit
  except the four line terminators, the star is greedy, and the search is for the leftmost
  match. A pattern is kept as its literal and its replacement template, in which
  \<^verbatim>\<open>$1\<close> stands for the capture group.
\<close>

definition isLineTerminator :: "16 word \<Rightarrow> bool" where
  "isLineTerminator c \<longleftrightarrow> c = 0x000A \<or> c = 0x000D \<or> c = 0x2028 \<or> c = 0x2029"

datatype piece = Text jsstring | Group1

record pattern =
  regex :: jsstring
  replace :: "piece list"

record regex_match =
  before :: jsstring
  group1 :: jsstring
  after :: jsstring

text \<open>
  The leftmost occurrence of the literal \<open>lit\<close> in \<open>s\<close>: the text before it and the text
  after it, or \<open>None\<close> when \<open>lit\<close> does not occur.
\<close>

fun search :: "jsstring \<Rightarrow> jsstring \<Rightarrow> (jsstring \<times> jsstring) option" where
  "search lit [] = (if lit = [] then Some ([], []) else None)"
| "search lit (c # cs) =
     (if prefix lit (c # cs) then Some ([], drop (length lit) (c # cs))
      else case search lit cs of
             None \<Rightarrow> None
           | Some (pre, rest) \<Rightarrow> Some (c # pre, rest))"

text \<open>
  \<^verbatim>\<open>regex.exec(s)\<close> for the regular expression \<^verbatim>\<open>/lit(.*)/\<close>: after the leftmost occurrence
  of the literal the group takes every code unit up to the first line terminator.
\<close>

definition regex_exec :: "jsstring \<Rightarrow> jsstring \<Rightarrow> regex_match option" where
  "regex_exec lit s =
     (case search lit s of
        None \<Rightarrow> None
      | Some (pre, rest) \<Rightarrow>
          Some \<lparr>before = pre,
                group1 = takeWhile (\<lambda>c. \<not> isLineTerminator c) rest,
                after = dropWhile (\<lambda>c. \<not> isLineTerminator c) rest\<rparr>)"

definition regex_test :: "jsstring \<Rightarrow> jsstring \<Rightarrow> bool" where
  "regex_test lit s = (regex_exec lit s \<noteq> None)"

fun expand :: "piece list \<Rightarrow> jsstring \<Rightarrow> jsstring" where
  "expand [] g = []"
| "expand (Text t # ps) g = t @ expand ps g"
| "expand (Group1 # ps) g = g @ expand ps g"

text \<open>
  \<^verbatim>\<open>s.replace(regex, template)\<close> with a regular expression that has no global flag: the
  first match is replaced by the expanded template, the text around it is kept.
\<close>

definition string_replace :: "jsstring \<Rightarrow> pattern \<Rightarrow> jsstring" where
  "string_replace s p =
     (case regex_exec (regex p) s of
        None \<Rightarrow> s
      | Some m \<Rightarrow> before m @ expand (replace p) (group1 m) @ after m)"

definition patterns :: "pattern list" where
  "patterns =
     [\<lparr>regex = str ''MetaMask Tx Signature: '', replace = [Group1]\<rparr>,
      \<lparr>regex = str ''ethers-user-denied: '', replace = [Text (str ''Action cancelled'')]\<rparr>,
      \<lparr>regex = str ''execution reverted: '',
        replace = [Text (str ''Transaction failed: ''), Group1]\<rparr>]"

text \<open>The \<^verbatim>\<open>for (const pattern of patterns)\<close> loop and the fallback after it.\<close>

fun sanitize_loop :: "pattern list \<Rightarrow> jsstring \<Rightarrow> jsstring" where
  "sanitize_loop [] message = str ''Transaction failed''"
| "sanitize_loop (p # ps) message =
     (if regex_test (regex p) message then string_replace message p
      else sanitize_loop ps message)"

definition sanitizeErrorMessage :: "jsstring \<Rightarrow> jsstring" where
  "sanitizeErrorMessage message = sanitize_loop patterns message"

section \<open>Values the component handles\<close>

text \<open>
  A signing handle is opaque. A contract binding is the address, the interface (kept as the
  names of its functions) and the signer it was built with.
\<close>

datatype signer = Signer nat

record contract =
  target :: jsstring
  interface :: "jsstring list"
  runner :: signer

definition longTradeAddress :: jsstring where
  "longTradeAddress = str ''0xe76aa7e39763e6fa260e13a24c6d76a8abf4305b''"

definition shortTradeAddress :: jsstring where
  "shortTradeAddress = str ''0x92158730bee648250e0a10e44fef3661b8d2e2b8''"

definition longTradeABI :: "jsstring list" where
  "longTradeABI = [str ''DVMFlashLoanCall'', str ''initiateFlashLoan'']"

definition shortTradeABI :: "jsstring list" where
  "shortTradeABI = [str ''DVMFlashLoanCall'', str ''initiateFlashLoan'']"

text \<open>
  Modelled from the spec: the module \<^verbatim>\<open>lib/bscConfig\<close> with the constant
  \<^verbatim>\<open>BSC_MAINNET_CONFIG\<close> is not among the sources. The descriptor has a chain id, a name,
  a native currency, RPC URLs and explorer URLs; the operations below take it as a parameter
  and read the chain id only.
\<close>

record network_config =
  chainId :: jsstring
  chainName :: jsstring
  nativeCurrency :: "jsstring \<times> jsstring \<times> nat"
  rpcUrls :: "jsstring list"
  blockExplorerUrls :: "jsstring list"

text \<open>
  A property of a caught value that the handlers use as a string: absent (undefined or
  null), a string, or another value, which has no method \<^verbatim>\<open>includes\<close> or
  \<^verbatim>\<open>replace\<close> of its own (a number, a boolean, a plain object); of such a value the
  handlers use only whether it is truthy and what it converts to as a string.
\<close>

datatype js_property =
  Absent
| Str jsstring
| Non_string (truthy: bool) (as_string: jsstring)

text \<open>
  A value caught by a \<^verbatim>\<open>catch\<close> clause, as far as the handlers look at it: whether it is
  a non-null object, its \<^verbatim>\<open>code\<close> when that is a number, its \<^verbatim>\<open>reason\<close> when that is
  a string, and its properties \<^verbatim>\<open>message\<close> and \<^verbatim>\<open>info.error.message\<close>.
\<close>

datatype thrown =
  NotAnObject
| ErrorObject (err_code: "int option") (err_reason: "jsstring option")
    (err_message: js_property) (err_info_error_message: js_property)

text \<open>An exception raised by the language itself, inside a handler.\<close>

datatype js_error = TypeError

text \<open>The declared interface \<^verbatim>\<open>EthereumRpcError\<close>, and \<^verbatim>\<open>new Error(message)\<close>.\<close>

record rpc_error =
  rpc_code :: int
  rpc_message :: jsstring

definition thrown_of_rpc :: "rpc_error \<Rightarrow> thrown" where
  "thrown_of_rpc e = ErrorObject (Some (rpc_code e)) None (Str (rpc_message e)) Absent"

definition new_Error :: "jsstring \<Rightarrow> thrown" where
  "new_Error m = ErrorObject None None (Str m) Absent"

datatype toast_kind = Toast_error | Toast_success | Toast_info | Toast_plain

datatype wallet_request =
  Eth_chainId
| Wallet_switchEthereumChain jsstring
| Wallet_addEthereumChain network_config
| Eth_requestAccounts

text \<open>
  What the wallet and the provider answer during one run of \<^verbatim>\<open>connectWallet\<close>: each request
  resolves (\<open>Inr\<close>) or rejects (\<open>Inl\<close>), and the clock shows some time when the answer
  has arrived. The rejection of the switch request is read through the interface
  \<^verbatim>\<open>EthereumRpcError\<close>, as the source's cast declares it.
\<close>

record wallet =
  chainId_reply :: "thrown + jsstring"
  chainId_at :: jsstring
  switch_reply :: "rpc_error + unit"
  switch_at :: jsstring
  add_reply :: "thrown + unit"
  add_at :: jsstring
  accounts_reply :: "thrown + jsstring list option"
  accounts_at :: jsstring
  signer_reply :: "thrown + signer"
  signer_at :: jsstring

record tx_options =
  gasPrice :: nat
  gasLimit :: nat

text \<open>
  A handle returned by \<^verbatim>\<open>setInterval\<close>, and a live repeating timer: its handle, its period
  in milliseconds and the bindings its callback closes over. The callback calls the
  \<^verbatim>\<open>executeContracts\<close> of the render in which the timer was armed, so it keeps seeing that
  render's two bindings.
\<close>

datatype timeout = Timeout nat

record interval_timer =
  handle :: timeout
  delay :: nat
  seen_long :: "contract option"
  seen_short :: "contract option"

section \<open>The state\<close>

text \<open>
  What a render shows of the state variables: the values that the handlers and the effects
  created by that render close over.
\<close>

record render =
  r_longTradeContract :: "contract option"
  r_shortTradeContract :: "contract option"
  r_executionInterval :: "timeout option"
  r_isConnected :: bool

text \<open>
  The first seven fields are the component's state variables, with every update made so
  far applied, and \<open>rendered\<close> is what the latest render showed of them. The rest is the
  environment the handlers act on: whether \<^verbatim>\<open>window.ethereum\<close> exists, what
  \<^verbatim>\<open>new Date().toLocaleTimeString()\<close> returns at the moment, the timers armed and not
  yet cleared, the supply of fresh handles, the notifications shown, the requests the
  component sends to the wallet by \<^verbatim>\<open>window.ethereum.request\<close>, the
  \<^verbatim>\<open>initiateFlashLoan\<close> calls made, the number of runs of \<^verbatim>\<open>executeContracts\<close>
  suspended at their \<^verbatim>\<open>await\<close>, and the exceptions that left a handler uncaught. Writes
  to the console are left out.
\<close>

record world =
  longTradeContract :: "contract option"
  shortTradeContract :: "contract option"
  isConnected :: bool
  isConnecting :: bool
  logs :: "jsstring list"
  executionInterval :: "timeout option"
  isRunning :: bool
  rendered :: render
  ethereum :: bool
  now :: jsstring
  timers :: "interval_timer list"
  nextTimeout :: nat
  toasts :: "(toast_kind \<times> jsstring) list"
  requests :: "wallet_request list"
  sent :: "(contract \<times> tx_options) list"
  awaiting :: nat
  uncaught :: "js_error list"

definition render_of :: "world \<Rightarrow> render" where
  "render_of w =
     \<lparr>r_longTradeContract = longTradeContract w, r_shortTradeContract = shortTradeContract w,
      r_executionInterval = executionInterval w, r_isConnected = isConnected w\<rparr>"

definition mounted :: "bool \<Rightarrow> jsstring \<Rightarrow> world" where
  "mounted eth t =
     \<lparr>longTradeContract = None, shortTradeContract = None, isConnected = False,
      isConnecting = False, logs = [], executionInterval = None, isRunning = False,
      rendered = \<lparr>r_longTradeContract = None, r_shortTradeContract = None,
                  r_executionInterval = None, r_isConnected = False\<rparr>,
      ethereum = eth, now = t, timers = [], nextTimeout = 0, toasts = [], requests = [],
      sent = [], awaiting = 0, uncaught = []\<rparr>"

section \<open>Primitive effects\<close>

definition addLog :: "jsstring \<Rightarrow> world \<Rightarrow> world" where
  "addLog message w = w\<lparr>logs := logs w @ [now w @ str '': '' @ message]\<rparr>"

definition toast :: "toast_kind \<Rightarrow> jsstring \<Rightarrow> world \<Rightarrow> world" where
  "toast k message w = w\<lparr>toasts := toasts w @ [(k, message)]\<rparr>"

definition request :: "wallet_request \<Rightarrow> world \<Rightarrow> world" where
  "request r w = w\<lparr>requests := requests w @ [r]\<rparr>"

text \<open>The end of an await: the handler goes on when the clock shows \<open>t\<close>.\<close>

definition resumed_at :: "jsstring \<Rightarrow> world \<Rightarrow> world" where
  "resumed_at t w = w\<lparr>now := t\<rparr>"

definition initiateFlashLoan :: "contract \<Rightarrow> tx_options \<Rightarrow> world \<Rightarrow> world" where
  "initiateFlashLoan c opts w = w\<lparr>sent := sent w @ [(c, opts)]\<rparr>"

definition clearInterval :: "timeout \<Rightarrow> world \<Rightarrow> world" where
  "clearInterval h w = w\<lparr>timers := filter (\<lambda>t. handle t \<noteq> h) (timers w)\<rparr>"

definition setInterval ::
  "contract option \<Rightarrow> contract option \<Rightarrow> nat \<Rightarrow> world \<Rightarrow> timeout \<times> world" where
  "setInterval long short ms w =
     (Timeout (nextTimeout w),
      w\<lparr>timers := timers w @
           [\<lparr>handle = Timeout (nextTimeout w), delay = ms, seen_long = long,
             seen_short = short\<rparr>],
        nextTimeout := Suc (nextTimeout w)\<rparr>)"

text \<open>An exception leaves the handler: nothing catches it.\<close>

definition leaves_uncaught :: "js_error \<Rightarrow> world \<Rightarrow> world" where
  "leaves_uncaught e w = w\<lparr>uncaught := uncaught w @ [e]\<rparr>"

section \<open>Connecting the wallet\<close>

text \<open>
  \<^verbatim>\<open>connectWallet\<close> reads no state variable, and before its last await has been answered
  it only sets \<^verbatim>\<open>isConnecting\<close> and appends to the log. It is modelled as one function
  of the wallet's answers and of the times at which they arrive. The \<^verbatim>\<open>try\<close> block
  returns the state it reached, with the thrown value (\<open>Inl\<close>) when it was left by an
  exception.
\<close>

text \<open>The block run when the wallet is on another chain (the body of the first \<^verbatim>\<open>if\<close>).\<close>

definition switchChain :: "network_config \<Rightarrow> wallet \<Rightarrow> world \<Rightarrow> (thrown \<times> world) + world" where
  "switchChain cfg wal w =
     (let w1 = addLog (str ''Switching to Binance Smart Chain...'') w;
          w2 = resumed_at (switch_at wal)
                 (request (Wallet_switchEthereumChain (chainId cfg)) w1)
      in case switch_reply wal of
           Inr _ \<Rightarrow> Inr (addLog (str ''Successfully switched to Binance Smart Chain'') w2)
         | Inl err \<Rightarrow>
             if rpc_code err = 4902 then
               let w3 = addLog (str ''Adding Binance Smart Chain to MetaMask...'') w2;
                   w4 = resumed_at (add_at wal) (request (Wallet_addEthereumChain cfg) w3)
               in case add_reply wal of
                    Inr _ \<Rightarrow> Inr (addLog (str ''Successfully added Binance Smart Chain'') w4)
                  | Inl addError \<Rightarrow>
                      Inl (new_Error (str ''Failed to add Binance Smart Chain to MetaMask''),
                           addLog (str ''Failed to add Binance Smart Chain'') w4)
             else
               Inl (thrown_of_rpc err,
                    addLog (str ''Chain switch error: '' @ rpc_message err) w2))"

text \<open>The statements after the chain check: the accounts, the signer, the two bindings.\<close>

definition requestAccounts :: "wallet \<Rightarrow> world \<Rightarrow> (thrown \<times> world) + world" where
  "requestAccounts wal w =
     (let w1 = resumed_at (accounts_at wal)
                 (request Eth_requestAccounts (addLog (str ''Requesting accounts...'') w))
      in (case accounts_reply wal of
            Inl e \<Rightarrow> Inl (e, w1)
          | Inr None \<Rightarrow> Inl (new_Error (str ''No accounts found''), w1)
          | Inr (Some []) \<Rightarrow> Inl (new_Error (str ''No accounts found''), w1)
          | Inr (Some (account # _)) \<Rightarrow>
              (let w2 = resumed_at (signer_at wal)
                          (addLog (str ''Connected account: '' @ account) w1)
               in (case signer_reply wal of
                     Inl e \<Rightarrow> Inl (e, w2)
                   | Inr web3Signer \<Rightarrow>
                       (let longTrade = \<lparr>target = longTradeAddress,
                              interface = longTradeABI, runner = web3Signer\<rparr>;
                            shortTrade = \<lparr>target = shortTradeAddress,
                              interface = shortTradeABI, runner = web3Signer\<rparr>;
                            w3 = w2\<lparr>longTradeContract := Some longTrade,
                                   shortTradeContract := Some shortTrade,
                                   isConnected := True\<rparr>;
                            w4 = addLog (str ''Wallet connected successfully'') w3
                        in Inr (toast Toast_success
                                  (str ''Wallet connected to BSC successfully'') w4))))))"

definition connectWallet_try ::
  "network_config \<Rightarrow> wallet \<Rightarrow> world \<Rightarrow> (thrown \<times> world) + world" where
  "connectWallet_try cfg wal w =
     (let w1 = resumed_at (chainId_at wal) (request Eth_chainId w)
      in (case chainId_reply wal of
            Inl e \<Rightarrow> Inl (e, w1)
          | Inr cid \<Rightarrow>
              (let w2 = addLog (str ''Current chain ID: '' @ cid) w1
               in (case (if cid \<noteq> chainId cfg then switchChain cfg wal w2 else Inr w2) of
                     Inl ew \<Rightarrow> Inl ew
                   | Inr w3 \<Rightarrow> requestAccounts wal w3))))"

text \<open>
  \<^verbatim>\<open>err.message?.includes(t)\<close>: undefined, so falsy, when there is no message; the
  search in a string; a TypeError when the message is another value, which has no such
  method.
\<close>

definition message_includes :: "js_property \<Rightarrow> jsstring \<Rightarrow> js_error + bool" where
  "message_includes m t =
     (case m of
        Absent \<Rightarrow> Inr False
      | Str s \<Rightarrow> Inr (String_includes s t)
      | Non_string _ _ \<Rightarrow> Inl TypeError)"

text \<open>
  The message the \<^verbatim>\<open>catch\<close> block of \<^verbatim>\<open>connectWallet\<close> chooses, or the exception it
  raises while choosing.
\<close>

definition connect_errorMessage :: "thrown \<Rightarrow> js_error + jsstring" where
  "connect_errorMessage error =
     (case error of
        NotAnObject \<Rightarrow> Inr (str ''Error connecting wallet'')
      | ErrorObject c r m i \<Rightarrow>
          if c = Some 4001 then Inr (str ''Connection rejected by user'')
          else (case message_includes m (str ''user rejected request'') of
                  Inl e \<Rightarrow> Inl e
                | Inr True \<Rightarrow> Inr (str ''Connection rejected by user'')
                | Inr False \<Rightarrow>
                    (case message_includes m (str ''already pending'') of
                       Inl e \<Rightarrow> Inl e
                     | Inr True \<Rightarrow>
                         Inr (str ''A request is already pending. Please check MetaMask.'')
                     | Inr False \<Rightarrow> Inr (str ''Error connecting wallet''))))"

definition connectWallet_catch :: "thrown \<Rightarrow> world \<Rightarrow> world" where
  "connectWallet_catch error w =
     (case connect_errorMessage error of
        Inl e \<Rightarrow> leaves_uncaught e w
      | Inr errorMessage \<Rightarrow>
          toast Toast_error errorMessage
            (addLog (str ''Connection error: '' @ errorMessage) w))"

definition connectWallet :: "network_config \<Rightarrow> wallet \<Rightarrow> world \<Rightarrow> world" where
  "connectWallet cfg wal w =
     (if \<not> ethereum w then
        toast Toast_error (str ''MetaMask not detected. Please install MetaMask.'') w
      else
        let w1 = addLog (str ''Attempting to connect wallet...'') (w\<lparr>isConnecting := True\<rparr>);
            w2 = (case connectWallet_try cfg wal w1 of
                    Inr w' \<Rightarrow> w'
                  | Inl (error, w') \<Rightarrow> connectWallet_catch error w')
        in w2\<lparr>isConnecting := False\<rparr>)"

section \<open>The dispatcher\<close>

definition txOptions :: tx_options where
  "txOptions = \<lparr>gasPrice = 5 * 10 ^ 9, gasLimit = 500000\<rparr>"

text \<open>
  \<^verbatim>\<open>executeContracts\<close> up to its \<^verbatim>\<open>await\<close>. The two bindings are those of the render whose
  \<^verbatim>\<open>executeContracts\<close> is called: the ones the latest render showed for a click, the ones
  the timer's callback closed over for a firing.
\<close>

definition executeContracts :: "contract option \<Rightarrow> contract option \<Rightarrow> world \<Rightarrow> world" where
  "executeContracts long short w =
     (case (long, short) of
        (Some longTrade, Some shortTrade) \<Rightarrow>
          let w1 = w\<lparr>isRunning := True\<rparr>;
              w2 = addLog (str ''Executing contracts...'') w1;
              w3 = initiateFlashLoan longTrade txOptions w2;
              w4 = initiateFlashLoan shortTrade txOptions w3
          in w4\<lparr>awaiting := Suc (awaiting w4)\<rparr>
      | _ \<Rightarrow>
          addLog (str ''Error: Contracts not initialized'')
            (toast Toast_error
               (str ''Contracts not initialized. Please connect wallet first.'') w))"

text \<open>
  \<^verbatim>\<open>sanitizeErrorMessage\<close> called with a value that is not a string: \<^verbatim>\<open>test\<close> converts
  the value to a string, and on the first match the call of \<^verbatim>\<open>replace\<close>, which the value
  does not have, raises a TypeError.
\<close>

fun sanitize_loop_other :: "pattern list \<Rightarrow> jsstring \<Rightarrow> js_error + jsstring" where
  "sanitize_loop_other [] shown = Inr (str ''Transaction failed'')"
| "sanitize_loop_other (p # ps) shown =
     (if regex_test (regex p) shown then Inl TypeError else sanitize_loop_other ps shown)"

text \<open>
  The message the \<^verbatim>\<open>catch\<close> block of \<^verbatim>\<open>executeContracts\<close> chooses, or the exception
  it raises while choosing.
\<close>

definition execute_userMessage :: "thrown \<Rightarrow> js_error + jsstring" where
  "execute_userMessage error =
     (case error of
        NotAnObject \<Rightarrow> Inr (str ''Transaction was rejected'')
      | ErrorObject c r m i \<Rightarrow>
          if c = Some 4001 \<or> r = Some (str ''rejected'')
          then Inr (str ''You rejected the transaction'')
          else (case message_includes m (str ''user denied transaction'') of
                  Inl e \<Rightarrow> Inl e
                | Inr True \<Rightarrow> Inr (str ''You denied the transaction'')
                | Inr False \<Rightarrow>
                    (case i of
                       Absent \<Rightarrow> Inr (str ''Transaction was rejected'')
                     | Str im \<Rightarrow>
                         if im \<noteq> [] then Inr (sanitizeErrorMessage im)
                         else Inr (str ''Transaction was rejected'')
                     | Non_string t shown \<Rightarrow>
                         if t then sanitize_loop_other patterns shown
                         else Inr (str ''Transaction was rejected''))))"

text \<open>
  The rest of a suspended run, once \<^verbatim>\<open>Promise.all([tx1, tx2])\<close> has settled: fulfilled
  (\<open>Inr\<close>) when both calls were, rejected with the first rejection otherwise. An exception
  raised inside the \<^verbatim>\<open>catch\<close> block skips the log entry and the notification and leaves
  the handler; the \<^verbatim>\<open>finally\<close> block runs in every case.
\<close>

definition executeContracts_resume :: "thrown + unit \<Rightarrow> world \<Rightarrow> world" where
  "executeContracts_resume settled w =
     (let w1 = (case settled of
                  Inr _ \<Rightarrow>
                    toast Toast_success (str ''Flash loans initiated successfully on BSC!'')
                      (addLog (str ''Flash loans initiated successfully!'') w)
                | Inl error \<Rightarrow>
                    (case execute_userMessage error of
                       Inl e \<Rightarrow> leaves_uncaught e w
                     | Inr userMessage \<Rightarrow>
                         toast Toast_error userMessage
                           (addLog (str ''Execution error: '' @ userMessage) w)))
      in w1\<lparr>isRunning := False, awaiting := awaiting w1 - 1\<rparr>)"

section \<open>The scheduler\<close>

text \<open>
  A handler is created by a render and reads the state variables that render showed.
  \<open>startIntervalExecution_from r\<close> is the handler created by the render \<open>r\<close>: it tests and
  clears the handle \<open>r\<close> showed, and both the run it makes and the callback of the timer
  it arms use the bindings \<open>r\<close> showed.
\<close>

definition startIntervalExecution_from :: "render \<Rightarrow> world \<Rightarrow> world" where
  "startIntervalExecution_from r w =
     (let w1 = (case r_executionInterval r of None \<Rightarrow> w | Some h \<Rightarrow> clearInterval h w);
          w2 = addLog (str ''Starting interval execution (every 3 seconds)'') w1;
          w3 = executeContracts (r_longTradeContract r) (r_shortTradeContract r) w2;
          (interval, w4) =
            setInterval (r_longTradeContract r) (r_shortTradeContract r) 3000 w3
      in w4\<lparr>executionInterval := Some interval\<rparr>)"

definition stopExecution_from :: "render \<Rightarrow> world \<Rightarrow> world" where
  "stopExecution_from r w =
     (case r_executionInterval r of
        None \<Rightarrow> w
      | Some h \<Rightarrow>
          let w1 = w\<lparr>isRunning := False\<rparr>;
              w2 = clearInterval h w1;
              w3 = w2\<lparr>executionInterval := None\<rparr>;
              w4 = addLog (str ''Execution stopped'') w3
          in toast Toast_plain (str ''Execution stopped'') w4)"

definition runOnce_from :: "render \<Rightarrow> world \<Rightarrow> world" where
  "runOnce_from r w =
     executeContracts (r_longTradeContract r) (r_shortTradeContract r)
       (toast Toast_plain (str ''Executing contracts once'')
          (addLog (str ''Executing contracts once'') w))"

text \<open>
  The handlers of a render that shows the state as it is: a call made once every update
  has been rendered.
\<close>

definition startIntervalExecution :: "world \<Rightarrow> world" where
  "startIntervalExecution w = startIntervalExecution_from (render_of w) w"

definition stopExecution :: "world \<Rightarrow> world" where
  "stopExecution w = stopExecution_from (render_of w) w"

definition runOnce :: "world \<Rightarrow> world" where
  "runOnce w = runOnce_from (render_of w) w"

text \<open>
  A render. It shows the state variables as they are now. The effect that depends on
  \<^verbatim>\<open>executionInterval\<close> is replaced when that value differs from the one shown before,
  and the cleanup of the replaced effect clears the handle shown before.
\<close>

definition commit_render :: "world \<Rightarrow> world" where
  "commit_render w =
     (let before = r_executionInterval (rendered w);
          w1 = w\<lparr>rendered := render_of w\<rparr>
      in if before = executionInterval w then w1
         else (case before of None \<Rightarrow> w1 | Some h \<Rightarrow> clearInterval h w1))"

text \<open>A firing of the timer \<open>h\<close>: its callback runs if the timer is still armed.\<close>

definition interval_fires :: "timeout \<Rightarrow> world \<Rightarrow> world" where
  "interval_fires h w =
     (case find (\<lambda>t. handle t = h) (timers w) of
        None \<Rightarrow> w
      | Some t \<Rightarrow> executeContracts (seen_long t) (seen_short t) w)"

section \<open>Notifications of the wallet\<close>

definition handleAccountsChanged :: "jsstring list \<Rightarrow> world \<Rightarrow> world" where
  "handleAccountsChanged accounts w =
     (if length accounts = 0 then
        toast Toast_info (str ''Wallet disconnected'')
          (addLog (str ''Wallet disconnected'')
             (w\<lparr>isConnected := False, longTradeContract := None,
                shortTradeContract := None\<rparr>))
      else w)"

text \<open>
  The handler is subscribed by an effect of a render, when \<^verbatim>\<open>window.ethereum\<close> exists and
  that render shows \<^verbatim>\<open>isConnected\<close> true, and is removed when a render shows another
  value. \<open>accountsChanged\<close> is the notification arriving when the state as it is has been
  rendered.
\<close>

definition accountsChanged_from :: "render \<Rightarrow> jsstring list \<Rightarrow> world \<Rightarrow> world" where
  "accountsChanged_from r accounts w =
     (if ethereum w \<and> r_isConnected r then handleAccountsChanged accounts w else w)"

definition accountsChanged :: "jsstring list \<Rightarrow> world \<Rightarrow> world" where
  "accountsChanged accounts w = accountsChanged_from (render_of w) accounts w"

section \<open>Runs of the component\<close>

text \<open>
  An event is a call of one of the operations through the handlers of the latest render,
  a firing of a timer, the settling of a suspended run, an accounts notification of the
  wallet, a change of what the clock shows, or a render. Between a handler and the next
  render the handlers of the latest render are still the ones that are called, so two
  calls in a row without a render between them read the same values. A chain notification
  reloads the page and an unmount clears the timer; both end the life of the component and
  are not events of a run.
\<close>

datatype event =
  Connect wallet
| ExecuteContracts
| Start
| Stop
| RunOnce
| Fires timeout
| Settles "thrown + unit"
| AccountsChanged "jsstring list"
| Clock jsstring
| Render

fun step :: "network_config \<Rightarrow> event \<Rightarrow> world \<Rightarrow> world" where
  "step cfg (Connect wal) w = connectWallet cfg wal w"
| "step cfg ExecuteContracts w =
     executeContracts (r_longTradeContract (rendered w)) (r_shortTradeContract (rendered w)) w"
| "step cfg Start w = startIntervalExecution_from (rendered w) w"
| "step cfg Stop w = stopExecution_from (rendered w) w"
| "step cfg RunOnce w = runOnce_from (rendered w) w"
| "step cfg (Fires h) w = interval_fires h w"
| "step cfg (Settles r) w = (if awaiting w = 0 then w else executeContracts_resume r w)"
| "step cfg (AccountsChanged accounts) w = accountsChanged_from (rendered w) accounts w"
| "step cfg (Clock t) w = w\<lparr>now := t\<rparr>"
| "step cfg Render w = commit_render w"

fun run :: "network_config \<Rightarrow> event list \<Rightarrow> world \<Rightarrow> world" where
  "run cfg [] w = w"
| "run cfg (e # es) w = run cfg es (step cfg e w)"

section \<open>Notions used in the statements\<close>

text \<open>The state a \<^verbatim>\<open>try\<close> block reached, however it was left.\<close>

definition reached :: "(thrown \<times> world) + world \<Rightarrow> world" where
  "reached r = (case r of Inl (e, w) \<Rightarrow> w | Inr w \<Rightarrow> w)"

text \<open>A chain descriptor and wallets to run the component on.\<close>

definition example_config :: network_config where
  "example_config =
     \<lparr>chainId = str ''0x38'', chainName = str ''BNB Smart Chain'',
      nativeCurrency = (str ''BNB'', str ''BNB'', 18),
      rpcUrls = [str ''https://bsc-dataseed.binance.org/''],
      blockExplorerUrls = [str ''https://bscscan.com'']\<rparr>"

text \<open>A wallet already on the target chain that grants one account.\<close>

definition wallet_on_chain :: wallet where
  "wallet_on_chain =
     \<lparr>chainId_reply = Inr (str ''0x38''), chainId_at = str ''12:00:01'',
      switch_reply = Inr (), switch_at = str ''12:00:02'',
      add_reply = Inr (), add_at = str ''12:00:03'',
      accounts_reply = Inr (Some [str ''0x1111111111111111111111111111111111111111'']),
      accounts_at = str ''12:00:04'',
      signer_reply = Inr (Signer 0), signer_at = str ''12:00:05''\<rparr>"

text \<open>
  A wallet on another chain that does not know the target chain (code 4902); \<open>added\<close> is
  its answer to the request to add the chain.
\<close>

definition wallet_unknown_chain :: "thrown + unit \<Rightarrow> wallet" where
  "wallet_unknown_chain added =
     \<lparr>chainId_reply = Inr (str ''0x1''), chainId_at = str ''12:00:01'',
      switch_reply = Inl \<lparr>rpc_code = 4902, rpc_message = str ''Unrecognized chain ID''\<rparr>,
      switch_at = str ''12:00:02'',
      add_reply = added, add_at = str ''12:00:03'',
      accounts_reply = Inr (Some [str ''0x1111111111111111111111111111111111111111'']),
      accounts_at = str ''12:00:04'',
      signer_reply = Inr (Signer 0), signer_at = str ''12:00:05''\<rparr>"

text \<open>A wallet on another chain whose user refuses the switch (code 4001).\<close>

definition wallet_refuses_switch :: wallet where
  "wallet_refuses_switch =
     \<lparr>chainId_reply = Inr (str ''0x1''), chainId_at = str ''12:00:01'',
      switch_reply = Inl \<lparr>rpc_code = 4001, rpc_message = str ''User rejected the request.''\<rparr>,
      switch_at = str ''12:00:02'',
      add_reply = Inr (), add_at = str ''12:00:03'',
      accounts_reply = Inr (Some [str ''0x1111111111111111111111111111111111111111'']),
      accounts_at = str ''12:00:04'',
      signer_reply = Inr (Signer 0), signer_at = str ''12:00:05''\<rparr>"

text \<open>A log entry: the time shown when it is written, a colon and the message.\<close>

definition entry :: "jsstring \<Rightarrow> jsstring \<Rightarrow> jsstring" where
  "entry t m = t @ str '': '' @ m"

text \<open>
  The events that call neither \<^verbatim>\<open>startIntervalExecution\<close>, \<^verbatim>\<open>stopExecution\<close>,
  \<^verbatim>\<open>runOnce\<close> nor \<^verbatim>\<open>executeContracts\<close> through the handlers of a render.
\<close>

definition quiet :: "event \<Rightarrow> bool" where
  "quiet e = (case e of Fires h \<Rightarrow> True | Clock t \<Rightarrow> True | Connect wal \<Rightarrow> True
              | AccountsChanged a \<Rightarrow> True | Settles r \<Rightarrow> True | Render \<Rightarrow> True
              | _ \<Rightarrow> False)"

text \<open>The completion of a suspended run, and a call of \<^verbatim>\<open>stopExecution\<close>.\<close>

definition is_completion :: "event \<Rightarrow> bool" where
  "is_completion e = (case e of Settles r \<Rightarrow> True | _ \<Rightarrow> False)"

definition is_stop :: "event \<Rightarrow> bool" where
  "is_stop e = (case e of Stop \<Rightarrow> True | _ \<Rightarrow> False)"

section \<open>What each primitive effect changes\<close>

text \<open>
  The effects are kept folded in the proofs; these equations read a field of the state
  after an effect.
\<close>

lemma addLog_fields [simp]:
  "longTradeContract (addLog m w) = longTradeContract w"
  "shortTradeContract (addLog m w) = shortTradeContract w"
  "isConnected (addLog m w) = isConnected w"
  "isConnecting (addLog m w) = isConnecting w"
  "logs (addLog m w) = logs w @ [now w @ str '': '' @ m]"
  "executionInterval (addLog m w) = executionInterval w"
  "isRunning (addLog m w) = isRunning w"
  "rendered (addLog m w) = rendered w"
  "ethereum (addLog m w) = ethereum w"
  "now (addLog m w) = now w"
  "timers (addLog m w) = timers w"
  "nextTimeout (addLog m w) = nextTimeout w"
  "toasts (addLog m w) = toasts w"
  "requests (addLog m w) = requests w"
  "sent (addLog m w) = sent w"
  "awaiting (addLog m w) = awaiting w"
  "uncaught (addLog m w) = uncaught w"
  by (simp_all add: addLog_def)

lemma toast_fields [simp]:
  "longTradeContract (toast k m w) = longTradeContract w"
  "shortTradeContract (toast k m w) = shortTradeContract w"
  "isConnected (toast k m w) = isConnected w"
  "isConnecting (toast k m w) = isConnecting w"
  "logs (toast k m w) = logs w"
  "executionInterval (toast k m w) = executionInterval w"
  "isRunning (toast k m w) = isRunning w"
  "rendered (toast k m w) = rendered w"
  "ethereum (toast k m w) = ethereum w"
  "now (toast k m w) = now w"
  "timers (toast k m w) = timers w"
  "nextTimeout (toast k m w) = nextTimeout w"
  "toasts (toast k m w) = toasts w @ [(k, m)]"
  "requests (toast k m w) = requests w"
  "sent (toast k m w) = sent w"
  "awaiting (toast k m w) = awaiting w"
  "uncaught (toast k m w) = uncaught w"
  by (simp_all add: toast_def)

lemma request_fields [simp]:
  "longTradeContract (request r w) = longTradeContract w"
  "shortTradeContract (request r w) = shortTradeContract w"
  "isConnected (request r w) = isConnected w"
  "isConnecting (request r w) = isConnecting w"
  "logs (request r w) = logs w"
  "executionInterval (request r w) = executionInterval w"
  "isRunning (request r w) = isRunning w"
  "rendered (request r w) = rendered w"
  "ethereum (request r w) = ethereum w"
  "now (request r w) = now w"
  "timers (request r w) = timers w"
  "nextTimeout (request r w) = nextTimeout w"
  "toasts (request r w) = toasts w"
  "requests (request r w) = requests w @ [r]"
  "sent (request r w) = sent w"
  "awaiting (request r w) = awaiting w"
  "uncaught (request r w) = uncaught w"
  by (simp_all add: request_def)

lemma resumed_at_fields [simp]:
  "longTradeContract (resumed_at t w) = longTradeContract w"
  "shortTradeContract (resumed_at t w) = shortTradeContract w"
  "isConnected (resumed_at t w) = isConnected w"
  "isConnecting (resumed_at t w) = isConnecting w"
  "logs (resumed_at t w) = logs w"
  "executionInterval (resumed_at t w) = executionInterval w"
  "isRunning (resumed_at t w) = isRunning w"
  "rendered (resumed_at t w) = rendered w"
  "ethereum (resumed_at t w) = ethereum w"
  "now (resumed_at t w) = t"
  "timers (resumed_at t w) = timers w"
  "nextTimeout (resumed_at t w) = nextTimeout w"
  "toasts (resumed_at t w) = toasts w"
  "requests (resumed_at t w) = requests w"
  "sent (resumed_at t w) = sent w"
  "awaiting (resumed_at t w) = awaiting w"
  "uncaught (resumed_at t w) = uncaught w"
  by (simp_all add: resumed_at_def)

lemma initiateFlashLoan_fields [simp]:
  "longTradeContract (initiateFlashLoan c opts w) = longTradeContract w"
  "shortTradeContract (initiateFlashLoan c opts w) = shortTradeContract w"
  "isConnected (initiateFlashLoan c opts w) = isConnected w"
  "isConnecting (initiateFlashLoan c opts w) = isConnecting w"
  "logs (initiateFlashLoan c opts w) = logs w"
  "executionInterval (initiateFlashLoan c opts w) = executionInterval w"
  "isRunning (initiateFlashLoan c opts w) = isRunning w"
  "rendered (initiateFlashLoan c opts w) = rendered w"
  "ethereum (initiateFlashLoan c opts w) = ethereum w"
  "now (initiateFlashLoan c opts w) = now w"
  "timers (initiateFlashLoan c opts w) = timers w"
  "nextTimeout (initiateFlashLoan c opts w) = nextTimeout w"
  "toasts (initiateFlashLoan c opts w) = toasts w"
  "requests (initiateFlashLoan c opts w) = requests w"
  "sent (initiateFlashLoan c opts w) = sent w @ [(c, opts)]"
  "awaiting (initiateFlashLoan c opts w) = awaiting w"
  "uncaught (initiateFlashLoan c opts w) = uncaught w"
  by (simp_all add: initiateFlashLoan_def)

lemma clearInterval_fields [simp]:
  "longTradeContract (clearInterval h w) = longTradeContract w"
  "shortTradeContract (clearInterval h w) = shortTradeContract w"
  "isConnected (clearInterval h w) = isConnected w"
  "isConnecting (clearInterval h w) = isConnecting w"
  "logs (clearInterval h w) = logs w"
  "executionInterval (clearInterval h w) = executionInterval w"
  "isRunning (clearInterval h w) = isRunning w"
  "rendered (clearInterval h w) = rendered w"
  "ethereum (clearInterval h w) = ethereum w"
  "now (clearInterval h w) = now w"
  "timers (clearInterval h w) = filter (\<lambda>t. handle t \<noteq> h) (timers w)"
  "nextTimeout (clearInterval h w) = nextTimeout w"
  "toasts (clearInterval h w) = toasts w"
  "requests (clearInterval h w) = requests w"
  "sent (clearInterval h w) = sent w"
  "awaiting (clearInterval h w) = awaiting w"
  "uncaught (clearInterval h w) = uncaught w"
  by (simp_all add: clearInterval_def)

lemma setInterval_fields [simp]:
  "longTradeContract (snd (setInterval long short ms w)) = longTradeContract w"
  "shortTradeContract (snd (setInterval long short ms w)) = shortTradeContract w"
  "isConnected (snd (setInterval long short ms w)) = isConnected w"
  "isConnecting (snd (setInterval long short ms w)) = isConnecting w"
  "logs (snd (setInterval long short ms w)) = logs w"
  "executionInterval (snd (setInterval long short ms w)) = executionInterval w"
  "isRunning (snd (setInterval long short ms w)) = isRunning w"
  "rendered (snd (setInterval long short ms w)) = rendered w"
  "ethereum (snd (setInterval long short ms w)) = ethereum w"
  "now (snd (setInterval long short ms w)) = now w"
  "timers (snd (setInterval long short ms w)) = timers w @ [\<lparr>handle = Timeout (nextTimeout w), delay = ms, seen_long = long, seen_short = short\<rparr>]"
  "nextTimeout (snd (setInterval long short ms w)) = Suc (nextTimeout w)"
  "toasts (snd (setInterval long short ms w)) = toasts w"
  "requests (snd (setInterval long short ms w)) = requests w"
  "sent (snd (setInterval long short ms w)) = sent w"
  "awaiting (snd (setInterval long short ms w)) = awaiting w"
  "uncaught (snd (setInterval long short ms w)) = uncaught w"
  by (simp_all add: setInterval_def)

lemma leaves_uncaught_fields [simp]:
  "longTradeContract (leaves_uncaught e w) = longTradeContract w"
  "shortTradeContract (leaves_uncaught e w) = shortTradeContract w"
  "isConnected (leaves_uncaught e w) = isConnected w"
  "isConnecting (leaves_uncaught e w) = isConnecting w"
  "logs (leaves_uncaught e w) = logs w"
  "executionInterval (leaves_uncaught e w) = executionInterval w"
  "isRunning (leaves_uncaught e w) = isRunning w"
  "rendered (leaves_uncaught e w) = rendered w"
  "ethereum (leaves_uncaught e w) = ethereum w"
  "now (leaves_uncaught e w) = now w"
  "timers (leaves_uncaught e w) = timers w"
  "nextTimeout (leaves_uncaught e w) = nextTimeout w"
  "toasts (leaves_uncaught e w) = toasts w"
  "requests (leaves_uncaught e w) = requests w"
  "sent (leaves_uncaught e w) = sent w"
  "awaiting (leaves_uncaught e w) = awaiting w"
  "uncaught (leaves_uncaught e w) = uncaught w @ [e]"
  by (simp_all add: leaves_uncaught_def)

lemma fst_setInterval [simp]: "fst (setInterval long short ms w) = Timeout (nextTimeout w)"
  by (simp add: setInterval_def)

lemma render_of_fields [simp]:
  "r_longTradeContract (render_of w) = longTradeContract w"
  "r_shortTradeContract (render_of w) = shortTradeContract w"
  "r_executionInterval (render_of w) = executionInterval w"
  "r_isConnected (render_of w) = isConnected w"
  by (simp_all add: render_of_def)

lemma mounted_fields:
  "longTradeContract (mounted eth t) = None"
  "shortTradeContract (mounted eth t) = None"
  "isConnected (mounted eth t) = False"
  "isConnecting (mounted eth t) = False"
  "logs (mounted eth t) = []"
  "executionInterval (mounted eth t) = None"
  "isRunning (mounted eth t) = False"
  "ethereum (mounted eth t) = eth"
  "now (mounted eth t) = t"
  "timers (mounted eth t) = []"
  "nextTimeout (mounted eth t) = 0"
  "toasts (mounted eth t) = []"
  "requests (mounted eth t) = []"
  "sent (mounted eth t) = []"
  "awaiting (mounted eth t) = 0"
  "uncaught (mounted eth t) = []"
  "r_longTradeContract (rendered (mounted eth t)) = None"
  "r_shortTradeContract (rendered (mounted eth t)) = None"
  "r_executionInterval (rendered (mounted eth t)) = None"
  "r_isConnected (rendered (mounted eth t)) = False"
  by (simp_all add: mounted_def)

section \<open>What each operation changes\<close>

lemma executeContracts_absent:
  "long = None \<or> short = None \<Longrightarrow>
   executeContracts long short w =
     addLog (str ''Error: Contracts not initialized'')
       (toast Toast_error (str ''Contracts not initialized. Please connect wallet first.'') w)"
  by (auto simp: executeContracts_def split: option.splits)

lemma executeContracts_present:
  "executeContracts (Some l) (Some s) w =
     (initiateFlashLoan s txOptions (initiateFlashLoan l txOptions
        (addLog (str ''Executing contracts...'') (w\<lparr>isRunning := True\<rparr>))))
       \<lparr>awaiting := Suc (awaiting w)\<rparr>"
  by (simp add: executeContracts_def Let_def)

lemma executeContracts_fields [simp]:
  "longTradeContract (executeContracts long short w) = longTradeContract w"
  "shortTradeContract (executeContracts long short w) = shortTradeContract w"
  "isConnected (executeContracts long short w) = isConnected w"
  "isConnecting (executeContracts long short w) = isConnecting w"
  "executionInterval (executeContracts long short w) = executionInterval w"
  "rendered (executeContracts long short w) = rendered w"
  "ethereum (executeContracts long short w) = ethereum w"
  "now (executeContracts long short w) = now w"
  "timers (executeContracts long short w) = timers w"
  "nextTimeout (executeContracts long short w) = nextTimeout w"
  "requests (executeContracts long short w) = requests w"
  "uncaught (executeContracts long short w) = uncaught w"
  "isRunning (executeContracts long short w) = (if long = None \<or> short = None then isRunning w else True)"
  "awaiting (executeContracts long short w) = (if long = None \<or> short = None then awaiting w else Suc (awaiting w))"
  by (cases long; cases short; simp add: executeContracts_absent executeContracts_present)+

lemma sent_executeContracts:
  "sent (executeContracts long short w) =
     (case (long, short) of
        (Some l, Some s) \<Rightarrow> sent w @ [(l, txOptions), (s, txOptions)]
      | _ \<Rightarrow> sent w)"
  by (cases long; cases short; simp add: executeContracts_absent executeContracts_present)

lemma executeContracts_resume_fields [simp]:
  "longTradeContract (executeContracts_resume r w) = longTradeContract w"
  "shortTradeContract (executeContracts_resume r w) = shortTradeContract w"
  "isConnected (executeContracts_resume r w) = isConnected w"
  "isConnecting (executeContracts_resume r w) = isConnecting w"
  "executionInterval (executeContracts_resume r w) = executionInterval w"
  "rendered (executeContracts_resume r w) = rendered w"
  "ethereum (executeContracts_resume r w) = ethereum w"
  "now (executeContracts_resume r w) = now w"
  "timers (executeContracts_resume r w) = timers w"
  "nextTimeout (executeContracts_resume r w) = nextTimeout w"
  "requests (executeContracts_resume r w) = requests w"
  "sent (executeContracts_resume r w) = sent w"
  "isRunning (executeContracts_resume r w) = False"
  "awaiting (executeContracts_resume r w) = awaiting w - 1"
  by (simp_all add: executeContracts_resume_def Let_def split: sum.splits)

text \<open>
  A rejection whose \<^verbatim>\<open>message\<close> is neither absent nor a string, and that is not taken for
  a refusal by its code or reason: the \<^verbatim>\<open>catch\<close> block raises a TypeError, nothing is
  logged or shown, and the \<^verbatim>\<open>finally\<close> block still resets \<^verbatim>\<open>isRunning\<close>.
\<close>

lemma executeContracts_resume_message_not_a_string:
  assumes "c \<noteq> Some 4001" and "r \<noteq> Some (str ''rejected'')"
  shows "executeContracts_resume (Inl (ErrorObject c r (Non_string t shown) i)) w
           = (leaves_uncaught TypeError w)\<lparr>isRunning := False, awaiting := awaiting w - 1\<rparr>"
  using assms
  by (simp add: executeContracts_resume_def execute_userMessage_def message_includes_def)

lemma reached_simps [simp]: "reached (Inr w) = w" "reached (Inl (e, w)) = w"
  by (simp_all add: reached_def)

lemma switchChain_fields [simp]:
  "longTradeContract (reached (switchChain cfg wal w)) = longTradeContract w"
  "shortTradeContract (reached (switchChain cfg wal w)) = shortTradeContract w"
  "isConnected (reached (switchChain cfg wal w)) = isConnected w"
  "isConnecting (reached (switchChain cfg wal w)) = isConnecting w"
  "executionInterval (reached (switchChain cfg wal w)) = executionInterval w"
  "isRunning (reached (switchChain cfg wal w)) = isRunning w"
  "rendered (reached (switchChain cfg wal w)) = rendered w"
  "ethereum (reached (switchChain cfg wal w)) = ethereum w"
  "timers (reached (switchChain cfg wal w)) = timers w"
  "nextTimeout (reached (switchChain cfg wal w)) = nextTimeout w"
  "toasts (reached (switchChain cfg wal w)) = toasts w"
  "sent (reached (switchChain cfg wal w)) = sent w"
  "awaiting (reached (switchChain cfg wal w)) = awaiting w"
  "uncaught (reached (switchChain cfg wal w)) = uncaught w"
  by (simp_all add: switchChain_def Let_def split: sum.splits)

lemma requestAccounts_fields [simp]:
  "isConnecting (reached (requestAccounts wal w)) = isConnecting w"
  "executionInterval (reached (requestAccounts wal w)) = executionInterval w"
  "isRunning (reached (requestAccounts wal w)) = isRunning w"
  "rendered (reached (requestAccounts wal w)) = rendered w"
  "ethereum (reached (requestAccounts wal w)) = ethereum w"
  "timers (reached (requestAccounts wal w)) = timers w"
  "nextTimeout (reached (requestAccounts wal w)) = nextTimeout w"
  "sent (reached (requestAccounts wal w)) = sent w"
  "awaiting (reached (requestAccounts wal w)) = awaiting w"
  "uncaught (reached (requestAccounts wal w)) = uncaught w"
  by (simp_all add: requestAccounts_def Let_def split: sum.splits option.splits list.splits)

lemma connectWallet_try_reached:
  "reached (connectWallet_try cfg wal w) =
     (case chainId_reply wal of
        Inl e \<Rightarrow> resumed_at (chainId_at wal) (request Eth_chainId w)
      | Inr cid \<Rightarrow>
          (let w2 = addLog (str ''Current chain ID: '' @ cid)
                      (resumed_at (chainId_at wal) (request Eth_chainId w))
           in if cid \<noteq> chainId cfg then
                (if isl (switchChain cfg wal w2) then reached (switchChain cfg wal w2)
                 else reached (requestAccounts wal (reached (switchChain cfg wal w2))))
              else reached (requestAccounts wal w2)))"
  by (simp add: connectWallet_try_def Let_def split: sum.splits)

lemma connectWallet_try_fields [simp]:
  "isConnecting (reached (connectWallet_try cfg wal w)) = isConnecting w"
  "executionInterval (reached (connectWallet_try cfg wal w)) = executionInterval w"
  "isRunning (reached (connectWallet_try cfg wal w)) = isRunning w"
  "rendered (reached (connectWallet_try cfg wal w)) = rendered w"
  "ethereum (reached (connectWallet_try cfg wal w)) = ethereum w"
  "timers (reached (connectWallet_try cfg wal w)) = timers w"
  "nextTimeout (reached (connectWallet_try cfg wal w)) = nextTimeout w"
  "sent (reached (connectWallet_try cfg wal w)) = sent w"
  "awaiting (reached (connectWallet_try cfg wal w)) = awaiting w"
  "uncaught (reached (connectWallet_try cfg wal w)) = uncaught w"
  by (cases "chainId_reply wal"; simp add: connectWallet_try_reached Let_def)+

lemma connectWallet_catch_fields [simp]:
  "longTradeContract (connectWallet_catch e w) = longTradeContract w"
  "shortTradeContract (connectWallet_catch e w) = shortTradeContract w"
  "isConnected (connectWallet_catch e w) = isConnected w"
  "isConnecting (connectWallet_catch e w) = isConnecting w"
  "executionInterval (connectWallet_catch e w) = executionInterval w"
  "isRunning (connectWallet_catch e w) = isRunning w"
  "rendered (connectWallet_catch e w) = rendered w"
  "ethereum (connectWallet_catch e w) = ethereum w"
  "now (connectWallet_catch e w) = now w"
  "timers (connectWallet_catch e w) = timers w"
  "nextTimeout (connectWallet_catch e w) = nextTimeout w"
  "requests (connectWallet_catch e w) = requests w"
  "sent (connectWallet_catch e w) = sent w"
  "awaiting (connectWallet_catch e w) = awaiting w"
  by (simp_all add: connectWallet_catch_def split: sum.splits)

lemma connectWallet_reached:
  "connectWallet cfg wal w =
     (if \<not> ethereum w then
        toast Toast_error (str ''MetaMask not detected. Please install MetaMask.'') w
      else
        let r = connectWallet_try cfg wal
                  (addLog (str ''Attempting to connect wallet...'') (w\<lparr>isConnecting := True\<rparr>))
        in (if isl r then connectWallet_catch (fst (projl r)) (reached r)
            else reached r)\<lparr>isConnecting := False\<rparr>)"
  by (simp add: connectWallet_def Let_def split: sum.splits prod.splits)

lemma connectWallet_fields [simp]:
  "executionInterval (connectWallet cfg wal w) = executionInterval w"
  "isRunning (connectWallet cfg wal w) = isRunning w"
  "rendered (connectWallet cfg wal w) = rendered w"
  "ethereum (connectWallet cfg wal w) = ethereum w"
  "timers (connectWallet cfg wal w) = timers w"
  "nextTimeout (connectWallet cfg wal w) = nextTimeout w"
  "sent (connectWallet cfg wal w) = sent w"
  "awaiting (connectWallet cfg wal w) = awaiting w"
  by (simp_all add: connectWallet_reached Let_def)

lemma startIntervalExecution_from_fields [simp]:
  "longTradeContract (startIntervalExecution_from r w) = longTradeContract w"
  "shortTradeContract (startIntervalExecution_from r w) = shortTradeContract w"
  "isConnected (startIntervalExecution_from r w) = isConnected w"
  "isConnecting (startIntervalExecution_from r w) = isConnecting w"
  "rendered (startIntervalExecution_from r w) = rendered w"
  "ethereum (startIntervalExecution_from r w) = ethereum w"
  "now (startIntervalExecution_from r w) = now w"
  "requests (startIntervalExecution_from r w) = requests w"
  "uncaught (startIntervalExecution_from r w) = uncaught w"
  "isRunning (startIntervalExecution_from r w) =
     (if r_longTradeContract r = None \<or> r_shortTradeContract r = None then isRunning w else True)"
  "awaiting (startIntervalExecution_from r w) =
     (if r_longTradeContract r = None \<or> r_shortTradeContract r = None then awaiting w
      else Suc (awaiting w))"
  "executionInterval (startIntervalExecution_from r w) = Some (Timeout (nextTimeout w))"
  "nextTimeout (startIntervalExecution_from r w) = Suc (nextTimeout w)"
  "timers (startIntervalExecution_from r w) =
     (case r_executionInterval r of
        None \<Rightarrow> timers w
      | Some h \<Rightarrow> filter (\<lambda>t. handle t \<noteq> h) (timers w)) @
       [\<lparr>handle = Timeout (nextTimeout w), delay = 3000,
         seen_long = r_longTradeContract r, seen_short = r_shortTradeContract r\<rparr>]"
  "sent (startIntervalExecution_from r w) =
     sent (executeContracts (r_longTradeContract r) (r_shortTradeContract r) w)"
  by (auto simp add: startIntervalExecution_from_def Let_def split_beta sent_executeContracts
      split: option.splits)

lemma stopExecution_from_fields [simp]:
  "longTradeContract (stopExecution_from r w) = longTradeContract w"
  "shortTradeContract (stopExecution_from r w) = shortTradeContract w"
  "isConnected (stopExecution_from r w) = isConnected w"
  "isConnecting (stopExecution_from r w) = isConnecting w"
  "rendered (stopExecution_from r w) = rendered w"
  "ethereum (stopExecution_from r w) = ethereum w"
  "now (stopExecution_from r w) = now w"
  "nextTimeout (stopExecution_from r w) = nextTimeout w"
  "requests (stopExecution_from r w) = requests w"
  "sent (stopExecution_from r w) = sent w"
  "awaiting (stopExecution_from r w) = awaiting w"
  "uncaught (stopExecution_from r w) = uncaught w"
  "isRunning (stopExecution_from r w) = (if r_executionInterval r = None then isRunning w else False)"
  "executionInterval (stopExecution_from r w) =
     (if r_executionInterval r = None then executionInterval w else None)"
  "timers (stopExecution_from r w) =
     (case r_executionInterval r of
        None \<Rightarrow> timers w
      | Some h \<Rightarrow> filter (\<lambda>t. handle t \<noteq> h) (timers w))"
  by (auto simp add: stopExecution_from_def Let_def split: option.splits)

lemma runOnce_from_fields [simp]:
  "longTradeContract (runOnce_from r w) = longTradeContract w"
  "shortTradeContract (runOnce_from r w) = shortTradeContract w"
  "isConnected (runOnce_from r w) = isConnected w"
  "isConnecting (runOnce_from r w) = isConnecting w"
  "executionInterval (runOnce_from r w) = executionInterval w"
  "rendered (runOnce_from r w) = rendered w"
  "ethereum (runOnce_from r w) = ethereum w"
  "now (runOnce_from r w) = now w"
  "timers (runOnce_from r w) = timers w"
  "nextTimeout (runOnce_from r w) = nextTimeout w"
  "requests (runOnce_from r w) = requests w"
  "uncaught (runOnce_from r w) = uncaught w"
  "isRunning (runOnce_from r w) =
     (if r_longTradeContract r = None \<or> r_shortTradeContract r = None then isRunning w else True)"
  "awaiting (runOnce_from r w) =
     (if r_longTradeContract r = None \<or> r_shortTradeContract r = None then awaiting w
      else Suc (awaiting w))"
  by (simp_all add: runOnce_from_def)

lemma interval_fires_fields [simp]:
  "longTradeContract (interval_fires h w) = longTradeContract w"
  "shortTradeContract (interval_fires h w) = shortTradeContract w"
  "isConnected (interval_fires h w) = isConnected w"
  "isConnecting (interval_fires h w) = isConnecting w"
  "executionInterval (interval_fires h w) = executionInterval w"
  "rendered (interval_fires h w) = rendered w"
  "ethereum (interval_fires h w) = ethereum w"
  "now (interval_fires h w) = now w"
  "timers (interval_fires h w) = timers w"
  "nextTimeout (interval_fires h w) = nextTimeout w"
  "requests (interval_fires h w) = requests w"
  "uncaught (interval_fires h w) = uncaught w"
  by (simp_all add: interval_fires_def split: option.splits)

lemma interval_fires_running:
  "isRunning w \<Longrightarrow> isRunning (interval_fires h w)"
  "awaiting w \<le> awaiting (interval_fires h w)"
  by (simp_all add: interval_fires_def split: option.splits)

lemma accountsChanged_from_fields [simp]:
  "isConnecting (accountsChanged_from r a w) = isConnecting w"
  "executionInterval (accountsChanged_from r a w) = executionInterval w"
  "isRunning (accountsChanged_from r a w) = isRunning w"
  "rendered (accountsChanged_from r a w) = rendered w"
  "ethereum (accountsChanged_from r a w) = ethereum w"
  "now (accountsChanged_from r a w) = now w"
  "timers (accountsChanged_from r a w) = timers w"
  "nextTimeout (accountsChanged_from r a w) = nextTimeout w"
  "requests (accountsChanged_from r a w) = requests w"
  "sent (accountsChanged_from r a w) = sent w"
  "awaiting (accountsChanged_from r a w) = awaiting w"
  "uncaught (accountsChanged_from r a w) = uncaught w"
  by (simp_all add: accountsChanged_from_def handleAccountsChanged_def)

lemma commit_render_fields [simp]:
  "longTradeContract (commit_render w) = longTradeContract w"
  "shortTradeContract (commit_render w) = shortTradeContract w"
  "isConnected (commit_render w) = isConnected w"
  "isConnecting (commit_render w) = isConnecting w"
  "logs (commit_render w) = logs w"
  "executionInterval (commit_render w) = executionInterval w"
  "isRunning (commit_render w) = isRunning w"
  "ethereum (commit_render w) = ethereum w"
  "now (commit_render w) = now w"
  "nextTimeout (commit_render w) = nextTimeout w"
  "toasts (commit_render w) = toasts w"
  "requests (commit_render w) = requests w"
  "sent (commit_render w) = sent w"
  "awaiting (commit_render w) = awaiting w"
  "uncaught (commit_render w) = uncaught w"
  "rendered (commit_render w) = render_of w"
  "timers (commit_render w) =
     (if r_executionInterval (rendered w) = executionInterval w then timers w
      else case r_executionInterval (rendered w) of
             None \<Rightarrow> timers w
           | Some h \<Rightarrow> filter (\<lambda>t. handle t \<noteq> h) (timers w))"
  by (simp_all add: commit_render_def Let_def split: option.splits)

text \<open>The handlers of a render that shows the state as it is.\<close>

lemma startIntervalExecution_fields [simp]:
  "isRunning (startIntervalExecution w) =
     (if longTradeContract w = None \<or> shortTradeContract w = None then isRunning w else True)"
  "awaiting (startIntervalExecution w) =
     (if longTradeContract w = None \<or> shortTradeContract w = None then awaiting w
      else Suc (awaiting w))"
  "executionInterval (startIntervalExecution w) = Some (Timeout (nextTimeout w))"
  "nextTimeout (startIntervalExecution w) = Suc (nextTimeout w)"
  "rendered (startIntervalExecution w) = rendered w"
  "sent (startIntervalExecution w) =
     sent (executeContracts (longTradeContract w) (shortTradeContract w) w)"
  by (simp_all add: startIntervalExecution_def)

lemma timers_startIntervalExecution:
  "timers (startIntervalExecution w) =
     filter (\<lambda>t. Some (handle t) \<noteq> executionInterval w) (timers w) @
       [\<lparr>handle = Timeout (nextTimeout w), delay = 3000, seen_long = longTradeContract w,
         seen_short = shortTradeContract w\<rparr>]"
  by (cases "executionInterval w") (auto simp add: startIntervalExecution_def intro: filter_cong)

lemma stopExecution_fields [simp]:
  "executionInterval (stopExecution w) = None"
  "isRunning (stopExecution w) = (if executionInterval w = None then isRunning w else False)"
  by (simp_all add: stopExecution_def)

section \<open>A successful connection\<close>

lemma connectWallet_connects:
  assumes "ethereum w" and "chainId_reply wal = Inr (chainId cfg)"
    and "accounts_reply wal = Inr (Some (account # others))" and "signer_reply wal = Inr sg"
  shows "longTradeContract (connectWallet cfg wal w) =
           Some \<lparr>target = longTradeAddress, interface = longTradeABI, runner = sg\<rparr>"
    and "shortTradeContract (connectWallet cfg wal w) =
           Some \<lparr>target = shortTradeAddress, interface = shortTradeABI, runner = sg\<rparr>"
    and "isConnected (connectWallet cfg wal w)"
  using assms
  by (simp_all add: connectWallet_def connectWallet_try_def requestAccounts_def Let_def)

lemma example_connects:
  "longTradeContract (connectWallet example_config wallet_on_chain (mounted True t)) \<noteq> None"
  "shortTradeContract (connectWallet example_config wallet_on_chain (mounted True t)) \<noteq> None"
  "isConnected (connectWallet example_config wallet_on_chain (mounted True t))"
  by (simp_all add: connectWallet_connects [where account = "str ''0x1111111111111111111111111111111111111111''" and others = "[]" and sg = "Signer 0"]
      example_config_def wallet_on_chain_def mounted_def)

section \<open>Timers armed without bindings\<close>

lemma sent_interval_fires_absent:
  assumes "\<forall>t \<in> set (timers w). seen_long t = None \<or> seen_short t = None"
  shows "sent (interval_fires h w) = sent w"
    and "isRunning (interval_fires h w) = isRunning w"
    and "awaiting (interval_fires h w) = awaiting w"
proof -
  have absent: "seen_long t = None \<or> seen_short t = None"
    if "find (\<lambda>t. handle t = h) (timers w) = Some t" for t
    using that assms by (auto simp: find_Some_iff)
  show "sent (interval_fires h w) = sent w"
    using absent
    by (auto simp add: interval_fires_def sent_executeContracts split: option.splits)
  show "isRunning (interval_fires h w) = isRunning w"
    using absent by (auto simp add: interval_fires_def split: option.splits)
  show "awaiting (interval_fires h w) = awaiting w"
    using absent by (auto simp add: interval_fires_def split: option.splits)
qed

lemma quiet_step_unbound:
  assumes "quiet e"
    and "\<forall>t \<in> set (timers w). seen_long t = None \<or> seen_short t = None"
    and "\<not> isRunning w" and "awaiting w = 0"
    and "r_executionInterval (rendered w) = None
         \<or> r_executionInterval (rendered w) = executionInterval w"
  shows "timers (step cfg e w) = timers w"
    and "executionInterval (step cfg e w) = executionInterval w"
    and "sent (step cfg e w) = sent w"
    and "\<not> isRunning (step cfg e w)"
    and "awaiting (step cfg e w) = 0"
    and "r_executionInterval (rendered (step cfg e w)) = None
         \<or> r_executionInterval (rendered (step cfg e w)) = executionInterval (step cfg e w)"
  using assms by (cases e; auto simp add: quiet_def sent_interval_fires_absent)+

lemma quiet_run_unbound:
  assumes "list_all quiet es"
    and "\<forall>t \<in> set (timers w). seen_long t = None \<or> seen_short t = None"
    and "\<not> isRunning w" and "awaiting w = 0"
    and "r_executionInterval (rendered w) = None
         \<or> r_executionInterval (rendered w) = executionInterval w"
  shows "timers (run cfg es w) = timers w \<and> executionInterval (run cfg es w) = executionInterval w
         \<and> sent (run cfg es w) = sent w \<and> \<not> isRunning (run cfg es w)"
  using assms
proof (induction es arbitrary: w)
  case Nil
  then show ?case by simp
next
  case (Cons e es)
  from Cons.prems have q: "quiet e" and qs: "list_all quiet es" by simp_all
  note st = quiet_step_unbound [OF q Cons.prems(2,3,4,5), of cfg]
  have "timers (run cfg es (step cfg e w)) = timers (step cfg e w)
      \<and> executionInterval (run cfg es (step cfg e w)) = executionInterval (step cfg e w)
      \<and> sent (run cfg es (step cfg e w)) = sent (step cfg e w)
      \<and> \<not> isRunning (run cfg es (step cfg e w))"
    using Cons.prems(2) st by (intro Cons.IH [OF qs]) simp_all
  with st show ?case by simp
qed

section \<open>The running flag between the start and the completion of a run\<close>

lemma step_keeps_running:
  "isRunning w \<Longrightarrow> \<not> is_stop e \<Longrightarrow> \<not> is_completion e \<Longrightarrow> isRunning (step cfg e w)"
  by (cases e) (simp_all add: is_stop_def is_completion_def interval_fires_running)

lemma run_keeps_running:
  "isRunning w \<Longrightarrow> list_all (\<lambda>e. \<not> is_stop e \<and> \<not> is_completion e) es \<Longrightarrow>
   isRunning (run cfg es w)"
  by (induction es arbitrary: w) (simp_all add: step_keeps_running)

lemma step_keeps_awaiting:
  "\<not> is_completion e \<Longrightarrow> awaiting w \<le> awaiting (step cfg e w)"
  by (cases e) (simp_all add: is_completion_def interval_fires_running)

lemma run_keeps_awaiting:
  "list_all (\<lambda>e. \<not> is_completion e) es \<Longrightarrow> awaiting w \<le> awaiting (run cfg es w)"
proof (induction es arbitrary: w)
  case Nil
  then show ?case by simp
next
  case (Cons e es)
  then have "awaiting w \<le> awaiting (step cfg e w)"
    and "awaiting (step cfg e w) \<le> awaiting (run cfg es (step cfg e w))"
    by (simp_all add: step_keeps_awaiting)
  then show ?case by simp
qed

section \<open>The connection when the switch of chain fails\<close>

lemma failed_to_add_message:
  "connect_errorMessage (new_Error (str ''Failed to add Binance Smart Chain to MetaMask''))
     = Inr (str ''Error connecting wallet'')"
  by (simp add: connect_errorMessage_def new_Error_def message_includes_def String_includes_def
      str_def sublist_Cons_right)

lemma connect_errorMessage_rpc: "\<exists>m. connect_errorMessage (thrown_of_rpc err) = Inr m"
  by (simp add: connect_errorMessage_def thrown_of_rpc_def message_includes_def
      split: bool.splits)

lemma connectWallet_switch_rejected:
  assumes "ethereum w" and "chainId_reply wal = Inr cid" and "cid \<noteq> chainId cfg"
    and "switch_reply wal = Inl err" and "rpc_code err \<noteq> 4902"
    and "connect_errorMessage (thrown_of_rpc err) = Inr errorMessage"
  shows "requests (connectWallet cfg wal w)
           = requests w @ [Eth_chainId, Wallet_switchEthereumChain (chainId cfg)]"
    and "isConnected (connectWallet cfg wal w) = isConnected w"
    and "longTradeContract (connectWallet cfg wal w) = longTradeContract w"
    and "shortTradeContract (connectWallet cfg wal w) = shortTradeContract w"
    and "isConnecting (connectWallet cfg wal w) = False"
    and "toasts (connectWallet cfg wal w) = toasts w @ [(Toast_error, errorMessage)]"
    and "logs (connectWallet cfg wal w)
           = logs w @
               [entry (now w) (str ''Attempting to connect wallet...''),
                entry (chainId_at wal) (str ''Current chain ID: '' @ cid),
                entry (chainId_at wal) (str ''Switching to Binance Smart Chain...''),
                entry (switch_at wal) (str ''Chain switch error: '' @ rpc_message err),
                entry (switch_at wal) (str ''Connection error: '' @ errorMessage)]"
  using assms
  by (simp_all add: connectWallet_def connectWallet_try_def switchChain_def
      connectWallet_catch_def Let_def entry_def)

lemma connectWallet_add_rejected:
  assumes "ethereum w" and "chainId_reply wal = Inr cid" and "cid \<noteq> chainId cfg"
    and "switch_reply wal = Inl err" and "rpc_code err = 4902" and "add_reply wal = Inl e"
  shows "requests (connectWallet cfg wal w)
           = requests w @ [Eth_chainId, Wallet_switchEthereumChain (chainId cfg),
               Wallet_addEthereumChain cfg]"
    and "isConnected (connectWallet cfg wal w) = isConnected w"
    and "longTradeContract (connectWallet cfg wal w) = longTradeContract w"
    and "shortTradeContract (connectWallet cfg wal w) = shortTradeContract w"
    and "isConnecting (connectWallet cfg wal w) = False"
    and "toasts (connectWallet cfg wal w)
           = toasts w @ [(Toast_error, str ''Error connecting wallet'')]"
    and "logs (connectWallet cfg wal w)
           = logs w @
               [entry (now w) (str ''Attempting to connect wallet...''),
                entry (chainId_at wal) (str ''Current chain ID: '' @ cid),
                entry (chainId_at wal) (str ''Switching to Binance Smart Chain...''),
                entry (switch_at wal) (str ''Adding Binance Smart Chain to MetaMask...''),
                entry (add_at wal) (str ''Failed to add Binance Smart Chain''),
                entry (add_at wal)
                  (str ''Connection error: '' @ str ''Error connecting wallet'')]"
  using assms
  by (simp_all add: connectWallet_def connectWallet_try_def switchChain_def
      connectWallet_catch_def Let_def entry_def failed_to_add_message)

lemma connectWallet_add_accepted:
  assumes "ethereum w" and "chainId_reply wal = Inr cid" and "cid \<noteq> chainId cfg"
    and "switch_reply wal = Inl err" and "rpc_code err = 4902" and "add_reply wal = Inr ()"
  shows "requests (connectWallet cfg wal w)
           = requests w @ [Eth_chainId, Wallet_switchEthereumChain (chainId cfg),
               Wallet_addEthereumChain cfg, Eth_requestAccounts]"
    and "accounts_reply wal = Inr (Some (account # others)) \<Longrightarrow> signer_reply wal = Inr sg \<Longrightarrow>
         isConnected (connectWallet cfg wal w)
         \<and> longTradeContract (connectWallet cfg wal w)
             = Some \<lparr>target = longTradeAddress, interface = longTradeABI, runner = sg\<rparr>
         \<and> shortTradeContract (connectWallet cfg wal w)
             = Some \<lparr>target = shortTradeAddress, interface = shortTradeABI, runner = sg\<rparr>"
  using assms
  by (simp_all add: connectWallet_def connectWallet_try_def switchChain_def requestAccounts_def
      Let_def split: sum.splits option.splits list.splits)

lemma example_chain_differs: "str ''0x1'' \<noteq> chainId example_config"
  by (simp add: example_config_def str_def)

lemma refused_switch_message:
  "connect_errorMessage
     (thrown_of_rpc \<lparr>rpc_code = 4001, rpc_message = str ''User rejected the request.''\<rparr>)
   = Inr (str ''Connection rejected by user'')"
  by (simp add: connect_errorMessage_def thrown_of_rpc_def)

section \<open>The search for a pattern\<close>

lemma search_None: "search lit s = None \<longleftrightarrow> \<not> sublist lit s"
  by (induction s) (auto simp: sublist_Cons_right split: option.splits)

lemma prefix_shorter:
  assumes "prefix lit (pre @ lit @ rest)" and "pre \<noteq> []"
  shows "prefix lit (pre @ butlast lit)"
proof (cases "lit = []")
  case True
  then show ?thesis by simp
next
  case False
  then have lit: "lit = butlast lit @ [last lit]" by simp
  have "length lit \<le> length (pre @ butlast lit)"
    using assms(2) False by (cases pre) simp_all
  moreover have "prefix lit ((pre @ butlast lit) @ (last lit # rest))"
    using assms(1) lit by (metis append.assoc append_Cons append_Nil)
  ultimately show ?thesis
    by (metis prefix_length_prefix prefixI)
qed

lemma search_leftmost:
  assumes "lit \<noteq> []" and "\<not> sublist lit (pre @ butlast lit)"
  shows "search lit (pre @ lit @ rest) = Some (pre, rest)"
  using assms(2)
proof (induction pre)
  case Nil
  from assms(1) obtain c cs where split: "lit @ rest = c # cs"
    by (cases lit) auto
  have "prefix lit (c # cs)"
    by (metis split prefixI)
  moreover have "drop (length lit) (c # cs) = rest"
    by (metis split append_eq_conv_conj)
  ultimately have "search lit (c # cs) = Some ([], rest)"
    by simp
  with split show ?case by simp
next
  case (Cons c pre)
  have "\<not> prefix lit ((c # pre) @ lit @ rest)"
    using prefix_shorter [of lit "c # pre" rest] Cons.prems
    by (auto simp: sublist_altdef')
  moreover have "\<not> sublist lit (pre @ butlast lit)"
    using Cons.prems by (auto simp: sublist_Cons_right)
  ultimately show ?case
    using Cons.IH by simp
qed

lemma takeWhile_line:
  assumes "\<forall>c \<in> set line. \<not> isLineTerminator c" and "rest = [] \<or> isLineTerminator (hd rest)"
  shows "takeWhile (\<lambda>c. \<not> isLineTerminator c) (line @ rest) = line"
    and "dropWhile (\<lambda>c. \<not> isLineTerminator c) (line @ rest) = rest"
  using assms by (cases rest; simp)+

lemma regex_test_includes: "regex_test lit s \<longleftrightarrow> String_includes s lit"
proof -
  have "regex_exec lit s = None \<longleftrightarrow> search lit s = None"
    by (simp add: regex_exec_def split: option.splits prod.splits)
  then show ?thesis
    by (simp add: regex_test_def String_includes_def search_None)
qed

lemma marker_nonempty: "str ''ethers-user-denied: '' \<noteq> []"
  by (simp add: str_def)

lemma search_Some:
  assumes "lit \<noteq> []" and "search lit s = Some (pre, r)"
  shows "s = pre @ lit @ r \<and> \<not> sublist lit (pre @ butlast lit)"
  using assms(2)
proof (induction s arbitrary: pre)
  case Nil
  with assms(1) show ?case by simp
next
  case (Cons c cs)
  show ?case
  proof (cases "prefix lit (c # cs)")
    case True
    with Cons.prems have pre: "pre = []" and r: "r = drop (length lit) (c # cs)"
      by simp_all
    from True have "c # cs = lit @ drop (length lit) (c # cs)"
      by (metis append_eq_conv_conj prefixE)
    moreover have "\<not> sublist lit (butlast lit)"
    proof
      assume "sublist lit (butlast lit)"
      then have "length lit \<le> length (butlast lit)"
        by (rule sublist_length_le)
      with assms(1) show False by (cases lit rule: rev_cases) simp_all
    qed
    ultimately show ?thesis using pre r by simp
  next
    case False
    with Cons.prems obtain pre' where found: "search lit cs = Some (pre', r)" and pre: "pre = c # pre'"
      by (auto split: option.splits)
    from Cons.IH [OF found] have cs: "cs = pre' @ lit @ r"
      and left: "\<not> sublist lit (pre' @ butlast lit)"
      by simp_all
    have "\<not> prefix lit (c # pre' @ butlast lit)"
    proof
      assume "prefix lit (c # pre' @ butlast lit)"
      moreover have "prefix (c # pre' @ butlast lit) (c # cs)"
        using assms(1) cs by (metis append_butlast_last_id append.assoc prefixI prefix_Cons)
      ultimately show False using False by (metis prefix_order.trans)
    qed
    with left have "\<not> sublist lit ((c # pre') @ butlast lit)"
      by (simp add: sublist_Cons_right)
    with cs pre show ?thesis by simp
  qed
qed

lemma line_split:
  "xs = takeWhile (\<lambda>c. \<not> isLineTerminator c) xs @ dropWhile (\<lambda>c. \<not> isLineTerminator c) xs
   \<and> (\<forall>c \<in> set (takeWhile (\<lambda>c. \<not> isLineTerminator c) xs). \<not> isLineTerminator c)
   \<and> (dropWhile (\<lambda>c. \<not> isLineTerminator c) xs = []
       \<or> isLineTerminator (hd (dropWhile (\<lambda>c. \<not> isLineTerminator c) xs)))"
  using hd_dropWhile [of "\<lambda>c. \<not> isLineTerminator c" xs]
  by (auto dest: set_takeWhileD)

lemma user_denied_replaced:
  assumes "\<not> String_includes message (str ''MetaMask Tx Signature: '')"
    and "message = pre @ str ''ethers-user-denied: '' @ line @ rest"
    and "\<not> sublist (str ''ethers-user-denied: '') (pre @ butlast (str ''ethers-user-denied: ''))"
    and "\<forall>c \<in> set line. \<not> isLineTerminator c"
    and "rest = [] \<or> isLineTerminator (hd rest)"
  shows "sanitizeErrorMessage message = pre @ str ''Action cancelled'' @ rest"
proof -
  have found: "search (str ''ethers-user-denied: '') message = Some (pre, line @ rest)"
    unfolding assms(2) by (rule search_leftmost [OF marker_nonempty assms(3)])
  then have "regex_test (str ''ethers-user-denied: '') message"
    by (simp add: regex_test_def regex_exec_def)
  moreover have "\<not> regex_test (str ''MetaMask Tx Signature: '') message"
    using assms(1) by (simp add: regex_test_includes)
  ultimately show ?thesis
    using found takeWhile_line [OF assms(4,5)]
    by (simp add: sanitizeErrorMessage_def patterns_def string_replace_def regex_exec_def)
qed

lemma user_denied_occurrence:
  assumes "String_includes message (str ''ethers-user-denied: '')"
  shows "\<exists>pre line rest.
           message = pre @ str ''ethers-user-denied: '' @ line @ rest
           \<and> \<not> sublist (str ''ethers-user-denied: '')
                 (pre @ butlast (str ''ethers-user-denied: ''))
           \<and> (\<forall>c \<in> set line. \<not> isLineTerminator c)
           \<and> (rest = [] \<or> isLineTerminator (hd rest))"
proof -
  from assms obtain pre r where "search (str ''ethers-user-denied: '') message = Some (pre, r)"
    using search_None [of "str ''ethers-user-denied: ''" message]
    by (auto simp: String_includes_def)
  from search_Some [OF marker_nonempty this]
  have "message = pre @ str ''ethers-user-denied: '' @ r"
    and "\<not> sublist (str ''ethers-user-denied: '') (pre @ butlast (str ''ethers-user-denied: ''))"
    by simp_all
  with line_split [of r] show ?thesis
    by metis
qed

section \<open>The sanitizer on the three documented inputs\<close>

text \<open>
  C4. The sanitizer maps \<^verbatim>\<open>execution reverted: insufficient funds\<close> to
  \<^verbatim>\<open>Transaction failed: insufficient funds\<close>, maps \<^verbatim>\<open>ethers-user-denied: foo\<close> to
  \<^verbatim>\<open>Action cancelled\<close>, and maps \<^verbatim>\<open>some unrelated provider noise\<close>, which no rule
  matches, to the fallback \<^verbatim>\<open>Transaction failed\<close>.
\<close>

theorem sanitizeErrorMessage_vectors:
  "sanitizeErrorMessage (str ''execution reverted: insufficient funds'')
     = str ''Transaction failed: insufficient funds''
   \<and> sanitizeErrorMessage (str ''ethers-user-denied: foo'') = str ''Action cancelled''
   \<and> sanitizeErrorMessage (str ''some unrelated provider noise'') = str ''Transaction failed''"
  by (simp add: sanitizeErrorMessage_def patterns_def regex_test_def regex_exec_def
      string_replace_def str_def isLineTerminator_def)

section \<open>The user-denied rule of the sanitizer\<close>

text \<open>
  C2, as the code has it. Every message that does not contain the signature prefix and
  contains the marker \<^verbatim>\<open>ethers-user-denied: \<close> splits into the text before the
  leftmost occurrence of the marker, the marker, the rest of that line, and the text from
  the next line terminator on; and for such a split the sanitizer returns the text before
  the marker, then \<^verbatim>\<open>Action cancelled\<close>, then the text from the line terminator on.
  The result is \<^verbatim>\<open>Action cancelled\<close> alone when the message starts with the marker
  and no line terminator follows it.
\<close>

theorem sanitizeErrorMessage_user_denied:
  assumes "\<not> String_includes message (str ''MetaMask Tx Signature: '')"
    and "String_includes message (str ''ethers-user-denied: '')"
  shows "(\<exists>pre line rest.
            message = pre @ str ''ethers-user-denied: '' @ line @ rest
            \<and> \<not> sublist (str ''ethers-user-denied: '')
                  (pre @ butlast (str ''ethers-user-denied: ''))
            \<and> (\<forall>c \<in> set line. \<not> isLineTerminator c)
            \<and> (rest = [] \<or> isLineTerminator (hd rest)))
         \<and> (\<forall>pre line rest.
               message = pre @ str ''ethers-user-denied: '' @ line @ rest
               \<and> \<not> sublist (str ''ethers-user-denied: '')
                     (pre @ butlast (str ''ethers-user-denied: ''))
               \<and> (\<forall>c \<in> set line. \<not> isLineTerminator c)
               \<and> (rest = [] \<or> isLineTerminator (hd rest))
               \<longrightarrow> sanitizeErrorMessage message = pre @ str ''Action cancelled'' @ rest)"
  using user_denied_occurrence [OF assms(2)] user_denied_replaced [OF assms(1)]
  by blast

theorem sanitizeErrorMessage_user_denied_witness:
  "sanitizeErrorMessage (str ''wallet: ethers-user-denied: foo'' @ [0x000A] @ str ''at line 2'')
     = str ''wallet: Action cancelled'' @ [0x000A] @ str ''at line 2''"
proof -
  let ?m = "str ''wallet: ethers-user-denied: foo'' @ [0x000A] @ str ''at line 2''"
  have a: "\<not> String_includes ?m (str ''MetaMask Tx Signature: '')"
    by (simp add: String_includes_def str_def sublist_Cons_right)
  have b: "?m = str ''wallet: '' @ str ''ethers-user-denied: '' @ str ''foo''
                  @ ([0x000A] @ str ''at line 2'')"
    by (simp add: str_def)
  have i: "String_includes ?m (str ''ethers-user-denied: '')"
    unfolding String_includes_def by (subst b) (rule sublist_appendI)
  have c: "\<not> sublist (str ''ethers-user-denied: '')
              (str ''wallet: '' @ butlast (str ''ethers-user-denied: ''))"
    by (simp add: str_def sublist_Cons_right)
  have d: "\<forall>c \<in> set (str ''foo''). \<not> isLineTerminator c"
    by (simp add: str_def isLineTerminator_def)
  have e: "[0x000A] @ str ''at line 2'' = []
           \<or> isLineTerminator (hd ([0x000A] @ str ''at line 2''))"
    by (simp add: isLineTerminator_def)
  from sanitizeErrorMessage_user_denied [OF a i]
  have "sanitizeErrorMessage ?m
          = str ''wallet: '' @ str ''Action cancelled'' @ ([0x000A] @ str ''at line 2'')"
    using b c d e by blast
  then show ?thesis by (simp add: str_def)
qed

text \<open>
  C2 as stated fails: text in front of the marker is part of the result.
\<close>

theorem sanitize_keeps_surrounding_text:
  "sanitizeErrorMessage (str ''MetaMask: ethers-user-denied: foo'')
     = str ''MetaMask: Action cancelled''
   \<and> sanitizeErrorMessage (str ''MetaMask: ethers-user-denied: foo'') \<noteq> str ''Action cancelled''"
  by (simp add: sanitizeErrorMessage_def patterns_def regex_test_def regex_exec_def
      string_replace_def str_def isLineTerminator_def)

section \<open>The execution state\<close>

text \<open>
  C1. The claim is that the timer handle is present only while \<^verbatim>\<open>isRunning\<close> is true.
  The code breaks it: after a connection, a start of the interval and the completion of
  the first run, each followed by its render, the timer is armed and its handle is held
  while \<^verbatim>\<open>isRunning\<close> is false and no run is suspended. Both calls of the run were made.
\<close>

theorem timer_without_running:
  "executionInterval (run example_config
      [Connect wallet_on_chain, Render, Start, Render, Settles (Inr ()), Render]
      (mounted True (str ''12:00:00''))) = Some (Timeout 0)
   \<and> map handle (timers (run example_config
      [Connect wallet_on_chain, Render, Start, Render, Settles (Inr ()), Render]
      (mounted True (str ''12:00:00'')))) = [Timeout 0]
   \<and> \<not> isRunning (run example_config
      [Connect wallet_on_chain, Render, Start, Render, Settles (Inr ()), Render]
      (mounted True (str ''12:00:00'')))
   \<and> awaiting (run example_config
      [Connect wallet_on_chain, Render, Start, Render, Settles (Inr ()), Render]
      (mounted True (str ''12:00:00''))) = 0
   \<and> length (sent (run example_config
      [Connect wallet_on_chain, Render, Start, Render, Settles (Inr ()), Render]
      (mounted True (str ''12:00:00'')))) = 2"
  by (simp add: example_connects sent_executeContracts mounted_fields split: option.splits)

section \<open>The dispatcher without bindings\<close>

text \<open>
  C3. When either binding is absent, \<^verbatim>\<open>executeContracts\<close> shows the notification
  and appends the log entry \<^verbatim>\<open>Error: Contracts not initialized\<close>, and changes nothing
  else: no \<^verbatim>\<open>initiateFlashLoan\<close> call is made, no run is suspended, and
  \<^verbatim>\<open>isRunning\<close>, the timer handle and the armed timers are as before.
\<close>

theorem executeContracts_not_initialized:
  assumes "long = None \<or> short = None"
  shows "executeContracts long short w =
           w\<lparr>toasts := toasts w @
                 [(Toast_error, str ''Contracts not initialized. Please connect wallet first.'')],
             logs := logs w @ [now w @ str '': '' @ str ''Error: Contracts not initialized'']\<rparr>
         \<and> sent (executeContracts long short w) = sent w
         \<and> awaiting (executeContracts long short w) = awaiting w
         \<and> isRunning (executeContracts long short w) = isRunning w
         \<and> executionInterval (executeContracts long short w) = executionInterval w
         \<and> timers (executeContracts long short w) = timers w"
  using assms by (simp add: executeContracts_absent addLog_def toast_def)

theorem executeContracts_not_initialized_witness:
  "logs (executeContracts None None (mounted True (str ''12:00:00'')))
     = [str ''12:00:00: Error: Contracts not initialized'']
   \<and> sent (executeContracts None None (mounted True (str ''12:00:00''))) = []
   \<and> isRunning (executeContracts None None (mounted True (str ''12:00:00''))) = False
   \<and> executionInterval (executeContracts None None (mounted True (str ''12:00:00''))) = None"
  using executeContracts_not_initialized [of None None "mounted True (str ''12:00:00'')"]
  by (simp add: mounted_def str_def)

section \<open>The running flag of a run\<close>

text \<open>
  C7, as the code has it. A run of \<^verbatim>\<open>executeContracts\<close> with both bindings present sets
  \<^verbatim>\<open>isRunning\<close> and suspends at its await. The flag then stays true over every sequence
  of events in which \<^verbatim>\<open>stopExecution\<close> is not called and no run completes. When the
  run completes, fulfilled or rejected with any value, \<^verbatim>\<open>isRunning\<close> is false, whatever
  happened since the run started.
\<close>

theorem executeContracts_resets_running:
  "isRunning (executeContracts (Some l) (Some s) w)
   \<and> awaiting (executeContracts (Some l) (Some s) w) = Suc (awaiting w)
   \<and> (list_all (\<lambda>e. \<not> is_stop e \<and> \<not> is_completion e) es \<longrightarrow>
        isRunning (run cfg es (executeContracts (Some l) (Some s) w)))
   \<and> (list_all (\<lambda>e. \<not> is_completion e) es \<longrightarrow>
        (\<forall>r. \<not> isRunning
               (step cfg (Settles r) (run cfg es (executeContracts (Some l) (Some s) w)))))
   \<and> (\<forall>r. \<not> isRunning (executeContracts_resume r w'))"
proof -
  let ?w = "executeContracts (Some l) (Some s) w"
  have started: "isRunning ?w" and suspended: "awaiting ?w = Suc (awaiting w)"
    by simp_all
  have "isRunning (run cfg es ?w)"
    if "list_all (\<lambda>e. \<not> is_stop e \<and> \<not> is_completion e) es"
    using started that by (rule run_keeps_running)
  moreover have "\<not> isRunning (step cfg (Settles r) (run cfg es ?w))"
    if "list_all (\<lambda>e. \<not> is_completion e) es" for r
  proof -
    from that have "awaiting ?w \<le> awaiting (run cfg es ?w)"
      by (rule run_keeps_awaiting)
    with suspended have "awaiting (run cfg es ?w) \<noteq> 0" by simp
    then show ?thesis by simp
  qed
  ultimately show ?thesis
    using started suspended by simp
qed

theorem executeContracts_resets_running_witness:
  "isRunning (run example_config [AccountsChanged [], Render, Fires (Timeout 0), RunOnce]
      (executeContracts
         (Some \<lparr>target = longTradeAddress, interface = longTradeABI, runner = Signer 0\<rparr>)
         (Some \<lparr>target = shortTradeAddress, interface = shortTradeABI, runner = Signer 0\<rparr>)
         (mounted True (str ''12:00:00''))))
   \<and> \<not> isRunning (step example_config (Settles (Inl NotAnObject))
      (run example_config [Stop, Render, Start]
        (executeContracts
           (Some \<lparr>target = longTradeAddress, interface = longTradeABI, runner = Signer 0\<rparr>)
           (Some \<lparr>target = shortTradeAddress, interface = shortTradeABI, runner = Signer 0\<rparr>)
           (mounted True (str ''12:00:00'')))))"
proof -
  have a: "list_all (\<lambda>e. \<not> is_stop e \<and> \<not> is_completion e)
             [AccountsChanged [], Render, Fires (Timeout 0), RunOnce]"
    by (simp add: is_stop_def is_completion_def)
  have b: "list_all (\<lambda>e. \<not> is_completion e) [Stop, Render, Start]"
    by (simp add: is_completion_def)
  show ?thesis
    using a b
      executeContracts_resets_running [of
        "\<lparr>target = longTradeAddress, interface = longTradeABI, runner = Signer 0\<rparr>"
        "\<lparr>target = shortTradeAddress, interface = shortTradeABI, runner = Signer 0\<rparr>"
        "mounted True (str ''12:00:00'')"
        "[AccountsChanged [], Render, Fires (Timeout 0), RunOnce]" example_config]
      executeContracts_resets_running [of
        "\<lparr>target = longTradeAddress, interface = longTradeABI, runner = Signer 0\<rparr>"
        "\<lparr>target = shortTradeAddress, interface = shortTradeABI, runner = Signer 0\<rparr>"
        "mounted True (str ''12:00:00'')"
        "[Stop, Render, Start]" example_config]
    by blast
qed

text \<open>
  C7 as stated fails: \<^verbatim>\<open>isRunning\<close> is not true for as long as the run is in progress.
  After a connection and a start of the interval, each followed by its render, a call of
  \<^verbatim>\<open>stopExecution\<close> leaves \<^verbatim>\<open>isRunning\<close> false while the run that the start made is
  still suspended at its await, with both of its calls made.
\<close>

theorem stop_clears_running_during_run:
  "awaiting (run example_config [Connect wallet_on_chain, Render, Start, Render, Stop]
      (mounted True (str ''12:00:00''))) = 1
   \<and> length (sent (run example_config [Connect wallet_on_chain, Render, Start, Render, Stop]
      (mounted True (str ''12:00:00'')))) = 2
   \<and> isRunning (run example_config [Connect wallet_on_chain, Render, Start, Render]
      (mounted True (str ''12:00:00'')))
   \<and> \<not> isRunning (run example_config [Connect wallet_on_chain, Render, Start, Render, Stop]
      (mounted True (str ''12:00:00'')))"
  by (simp add: example_connects sent_executeContracts mounted_fields split: option.splits)

section \<open>Stopping\<close>

text \<open>
  C8. Without a timer handle \<^verbatim>\<open>stopExecution\<close> returns the state as it is (handle,
  running flag, log and everything else), and it has no failing branch; so a second
  \<^verbatim>\<open>stopExecution\<close> in a row changes nothing.
\<close>

theorem stopExecution_idempotent:
  "(executionInterval w = None \<longrightarrow> stopExecution w = w)
   \<and> stopExecution (stopExecution w) = stopExecution w"
proof -
  have none: "stopExecution v = v" if "executionInterval v = None" for v
    using that by (simp add: stopExecution_def stopExecution_from_def)
  have "executionInterval (stopExecution w) = None" by simp
  then have "stopExecution (stopExecution w) = stopExecution w" by (rule none)
  with none show ?thesis by blast
qed

theorem stopExecution_idempotent_witness:
  "executionInterval (mounted True (str ''12:00:00'')) = None
   \<and> stopExecution (mounted True (str ''12:00:00'')) = mounted True (str ''12:00:00'')
   \<and> stopExecution (stopExecution (startIntervalExecution (mounted True (str ''12:00:00''))))
       = stopExecution (startIntervalExecution (mounted True (str ''12:00:00'')))"
  using stopExecution_idempotent [of "mounted True (str ''12:00:00'')"]
    stopExecution_idempotent [of "startIntervalExecution (mounted True (str ''12:00:00''))"]
  by (simp add: mounted_def)

section \<open>The accounts notification\<close>

text \<open>
  C9. While the session is connected, an accounts notification with an empty list sets
  \<^verbatim>\<open>isConnected\<close> to false and clears both bindings, with one log entry and one
  notification; a second such notification finds no handler and changes nothing; a
  notification with a non-empty list leaves the state as it is.
\<close>

theorem accountsChanged_empty_disconnects:
  assumes "ethereum w" and "isConnected w"
  shows "accountsChanged [] w =
           w\<lparr>isConnected := False, longTradeContract := None, shortTradeContract := None,
             logs := logs w @ [now w @ str '': '' @ str ''Wallet disconnected''],
             toasts := toasts w @ [(Toast_info, str ''Wallet disconnected'')]\<rparr>
         \<and> accountsChanged [] (accountsChanged [] w) = accountsChanged [] w
         \<and> (accounts \<noteq> [] \<longrightarrow> accountsChanged accounts w = w)"
  using assms
  by (simp add: accountsChanged_def accountsChanged_from_def handleAccountsChanged_def
      addLog_def toast_def)

theorem accountsChanged_empty_disconnects_witness:
  "isConnected (connectWallet example_config wallet_on_chain (mounted True (str ''12:00:00'')))
   \<and> \<not> isConnected (accountsChanged []
         (connectWallet example_config wallet_on_chain (mounted True (str ''12:00:00''))))
   \<and> longTradeContract (accountsChanged []
         (connectWallet example_config wallet_on_chain (mounted True (str ''12:00:00'')))) = None
   \<and> shortTradeContract (accountsChanged []
         (connectWallet example_config wallet_on_chain (mounted True (str ''12:00:00'')))) = None
   \<and> accountsChanged [str ''0x2222222222222222222222222222222222222222'']
         (connectWallet example_config wallet_on_chain (mounted True (str ''12:00:00'')))
       = connectWallet example_config wallet_on_chain (mounted True (str ''12:00:00''))"
proof -
  have eth: "ethereum (connectWallet example_config wallet_on_chain (mounted True (str ''12:00:00'')))"
    by (simp add: mounted_def)
  have con: "isConnected (connectWallet example_config wallet_on_chain (mounted True (str ''12:00:00'')))"
    by (rule example_connects)
  show ?thesis
    using accountsChanged_empty_disconnects [OF eth con,
        of "[str ''0x2222222222222222222222222222222222222222'']"] con
    by (simp add: str_def)
qed

section \<open>Starting the interval\<close>


section \<open>Starting without bindings\<close>

text \<open>
  C10. \<^verbatim>\<open>startIntervalExecution\<close> sets \<^verbatim>\<open>isRunning\<close> only through the run of
  \<^verbatim>\<open>executeContracts\<close> it makes. With a binding absent it leaves \<^verbatim>\<open>isRunning\<close> as it
  is and still arms the timer and holds its handle. Started on the mounted component, the
  timer stays armed and \<^verbatim>\<open>isRunning\<close> stays false after any sequence of firings (and of
  connections, completions, notifications, clock changes and renders): every firing fails
  the precondition and makes no \<^verbatim>\<open>initiateFlashLoan\<close> call.
\<close>

theorem start_never_sets_running:
  "isRunning (startIntervalExecution w)
     = isRunning (executeContracts (longTradeContract w) (shortTradeContract w) w)
   \<and> (longTradeContract w = None \<or> shortTradeContract w = None \<longrightarrow>
        isRunning (startIntervalExecution w) = isRunning w
        \<and> executionInterval (startIntervalExecution w) = Some (Timeout (nextTimeout w))
        \<and> Timeout (nextTimeout w) \<in> handle ` set (timers (startIntervalExecution w)))
   \<and> (list_all quiet es \<longrightarrow>
        \<not> isRunning (run cfg es (startIntervalExecution (mounted eth t)))
        \<and> executionInterval (run cfg es (startIntervalExecution (mounted eth t)))
            = Some (Timeout 0)
        \<and> map handle (timers (run cfg es (startIntervalExecution (mounted eth t))))
            = [Timeout 0]
        \<and> sent (run cfg es (startIntervalExecution (mounted eth t))) = [])"
proof -
  let ?w = "startIntervalExecution (mounted eth t)"
  have tm: "timers ?w = [\<lparr>handle = Timeout 0, delay = 3000, seen_long = None, seen_short = None\<rparr>]"
    by (simp add: timers_startIntervalExecution mounted_def)
  have "timers (run cfg es ?w) = timers ?w \<and> executionInterval (run cfg es ?w) = executionInterval ?w
         \<and> sent (run cfg es ?w) = sent ?w \<and> \<not> isRunning (run cfg es ?w)"
    if "list_all quiet es"
    using that tm by (intro quiet_run_unbound) (simp_all add: mounted_def)
  then have "list_all quiet es \<longrightarrow>
        \<not> isRunning (run cfg es ?w) \<and> executionInterval (run cfg es ?w) = Some (Timeout 0)
        \<and> map handle (timers (run cfg es ?w)) = [Timeout 0] \<and> sent (run cfg es ?w) = []"
    using tm by (simp add: sent_executeContracts mounted_def)
  then show ?thesis
    by (simp add: timers_startIntervalExecution)
qed

theorem start_never_sets_running_witness:
  "list_all quiet [Fires (Timeout 0), Connect wallet_on_chain, Render, Fires (Timeout 0)]
   \<and> \<not> isRunning (run example_config
         [Fires (Timeout 0), Connect wallet_on_chain, Render, Fires (Timeout 0)]
         (startIntervalExecution (mounted True (str ''12:00:00''))))
   \<and> executionInterval (run example_config
         [Fires (Timeout 0), Connect wallet_on_chain, Render, Fires (Timeout 0)]
         (startIntervalExecution (mounted True (str ''12:00:00'')))) = Some (Timeout 0)
   \<and> sent (run example_config
         [Fires (Timeout 0), Connect wallet_on_chain, Render, Fires (Timeout 0)]
         (startIntervalExecution (mounted True (str ''12:00:00'')))) = []
   \<and> longTradeContract (mounted True (str ''12:00:00'')) = None
   \<and> isRunning (startIntervalExecution (mounted True (str ''12:00:00''))) = False"
proof -
  have q: "list_all quiet [Fires (Timeout 0), Connect wallet_on_chain, Render, Fires (Timeout 0)]"
    by (simp add: quiet_def)
  have n: "longTradeContract (mounted True (str ''12:00:00'')) = None"
    by (simp add: mounted_def)
  show ?thesis
    using q n start_never_sets_running [of "mounted True (str ''12:00:00'')"
        "[Fires (Timeout 0), Connect wallet_on_chain, Render, Fires (Timeout 0)]" example_config True
        "str ''12:00:00''"]
    by (simp add: mounted_def)
qed

section \<open>A failed switch of chain\<close>

text \<open>
  C5, as the code has it. During \<^verbatim>\<open>connectWallet\<close>, with the wallet on another chain
  and the switch request rejected: with code 4902 one add-chain request is sent; if the
  wallet accepts it the flow goes on to request the accounts (and connects when an account
  and a signer are granted), and if the wallet rejects it the flow ends there with the
  message \<^verbatim>\<open>Error connecting wallet\<close> in a log entry and a notification. With any
  other code no add-chain request is sent, the flow ends, and the rejection is shown as
  its classified message in a log entry and a notification. An ended flow leaves the
  session and the bindings as they were.
\<close>

theorem switch_failure_handling:
  assumes "ethereum w" and "chainId_reply wal = Inr cid" and "cid \<noteq> chainId cfg"
    and "switch_reply wal = Inl err"
  shows "(rpc_code err = 4902 \<and> add_reply wal = Inr () \<longrightarrow>
            requests (connectWallet cfg wal w)
              = requests w @ [Eth_chainId, Wallet_switchEthereumChain (chainId cfg),
                  Wallet_addEthereumChain cfg, Eth_requestAccounts]
            \<and> (\<forall>account others sg.
                  accounts_reply wal = Inr (Some (account # others)) \<and> signer_reply wal = Inr sg
                  \<longrightarrow> isConnected (connectWallet cfg wal w)
                      \<and> longTradeContract (connectWallet cfg wal w)
                          = Some \<lparr>target = longTradeAddress, interface = longTradeABI,
                                   runner = sg\<rparr>
                      \<and> shortTradeContract (connectWallet cfg wal w)
                          = Some \<lparr>target = shortTradeAddress, interface = shortTradeABI,
                                   runner = sg\<rparr>))
         \<and> (rpc_code err = 4902 \<and> (\<exists>e. add_reply wal = Inl e) \<longrightarrow>
            requests (connectWallet cfg wal w)
              = requests w @ [Eth_chainId, Wallet_switchEthereumChain (chainId cfg),
                  Wallet_addEthereumChain cfg]
            \<and> isConnected (connectWallet cfg wal w) = isConnected w
            \<and> longTradeContract (connectWallet cfg wal w) = longTradeContract w
            \<and> shortTradeContract (connectWallet cfg wal w) = shortTradeContract w
            \<and> toasts (connectWallet cfg wal w)
                = toasts w @ [(Toast_error, str ''Error connecting wallet'')]
            \<and> logs (connectWallet cfg wal w)
                = logs w @
                    [entry (now w) (str ''Attempting to connect wallet...''),
                     entry (chainId_at wal) (str ''Current chain ID: '' @ cid),
                     entry (chainId_at wal) (str ''Switching to Binance Smart Chain...''),
                     entry (switch_at wal) (str ''Adding Binance Smart Chain to MetaMask...''),
                     entry (add_at wal) (str ''Failed to add Binance Smart Chain''),
                     entry (add_at wal)
                       (str ''Connection error: '' @ str ''Error connecting wallet'')])
         \<and> (rpc_code err \<noteq> 4902 \<longrightarrow>
            requests (connectWallet cfg wal w)
              = requests w @ [Eth_chainId, Wallet_switchEthereumChain (chainId cfg)]
            \<and> isConnected (connectWallet cfg wal w) = isConnected w
            \<and> longTradeContract (connectWallet cfg wal w) = longTradeContract w
            \<and> shortTradeContract (connectWallet cfg wal w) = shortTradeContract w
            \<and> (\<exists>errorMessage.
                  connect_errorMessage (thrown_of_rpc err) = Inr errorMessage
                  \<and> toasts (connectWallet cfg wal w)
                      = toasts w @ [(Toast_error, errorMessage)]
                  \<and> logs (connectWallet cfg wal w)
                      = logs w @
                          [entry (now w) (str ''Attempting to connect wallet...''),
                           entry (chainId_at wal) (str ''Current chain ID: '' @ cid),
                           entry (chainId_at wal)
                             (str ''Switching to Binance Smart Chain...''),
                           entry (switch_at wal)
                             (str ''Chain switch error: '' @ rpc_message err),
                           entry (switch_at wal)
                             (str ''Connection error: '' @ errorMessage)]))"
proof (intro conjI impI)
  assume a: "rpc_code err = 4902 \<and> add_reply wal = Inr ()"
  note acc = connectWallet_add_accepted [OF assms conjunct1 [OF a] conjunct2 [OF a]]
  show "requests (connectWallet cfg wal w)
      = requests w @ [Eth_chainId, Wallet_switchEthereumChain (chainId cfg),
          Wallet_addEthereumChain cfg, Eth_requestAccounts]"
    by (rule acc(1))
  show "\<forall>account others sg.
      accounts_reply wal = Inr (Some (account # others)) \<and> signer_reply wal = Inr sg
      \<longrightarrow> isConnected (connectWallet cfg wal w)
          \<and> longTradeContract (connectWallet cfg wal w)
              = Some \<lparr>target = longTradeAddress, interface = longTradeABI, runner = sg\<rparr>
          \<and> shortTradeContract (connectWallet cfg wal w)
              = Some \<lparr>target = shortTradeAddress, interface = shortTradeABI, runner = sg\<rparr>"
    using acc(2) by blast
next
  assume r: "rpc_code err = 4902 \<and> (\<exists>e. add_reply wal = Inl e)"
  then obtain e where e: "add_reply wal = Inl e" by blast
  note rej = connectWallet_add_rejected [OF assms conjunct1 [OF r] e]
  show "requests (connectWallet cfg wal w)
      = requests w @ [Eth_chainId, Wallet_switchEthereumChain (chainId cfg),
          Wallet_addEthereumChain cfg]"
    by (rule rej(1))
  show "isConnected (connectWallet cfg wal w) = isConnected w" by (rule rej(2))
  show "longTradeContract (connectWallet cfg wal w) = longTradeContract w" by (rule rej(3))
  show "shortTradeContract (connectWallet cfg wal w) = shortTradeContract w" by (rule rej(4))
  show "toasts (connectWallet cfg wal w)
      = toasts w @ [(Toast_error, str ''Error connecting wallet'')]"
    by (rule rej(6))
  show "logs (connectWallet cfg wal w)
      = logs w @
          [entry (now w) (str ''Attempting to connect wallet...''),
           entry (chainId_at wal) (str ''Current chain ID: '' @ cid),
           entry (chainId_at wal) (str ''Switching to Binance Smart Chain...''),
           entry (switch_at wal) (str ''Adding Binance Smart Chain to MetaMask...''),
           entry (add_at wal) (str ''Failed to add Binance Smart Chain''),
           entry (add_at wal)
             (str ''Connection error: '' @ str ''Error connecting wallet'')]"
    by (rule rej(7))
next
  assume o: "rpc_code err \<noteq> 4902"
  from connect_errorMessage_rpc obtain errorMessage
    where m: "connect_errorMessage (thrown_of_rpc err) = Inr errorMessage" by blast
  note oth = connectWallet_switch_rejected [OF assms o m]
  show "requests (connectWallet cfg wal w)
      = requests w @ [Eth_chainId, Wallet_switchEthereumChain (chainId cfg)]"
    by (rule oth(1))
  show "isConnected (connectWallet cfg wal w) = isConnected w" by (rule oth(2))
  show "longTradeContract (connectWallet cfg wal w) = longTradeContract w" by (rule oth(3))
  show "shortTradeContract (connectWallet cfg wal w) = shortTradeContract w" by (rule oth(4))
  show "\<exists>errorMessage.
      connect_errorMessage (thrown_of_rpc err) = Inr errorMessage
      \<and> toasts (connectWallet cfg wal w) = toasts w @ [(Toast_error, errorMessage)]
      \<and> logs (connectWallet cfg wal w)
          = logs w @
              [entry (now w) (str ''Attempting to connect wallet...''),
               entry (chainId_at wal) (str ''Current chain ID: '' @ cid),
               entry (chainId_at wal) (str ''Switching to Binance Smart Chain...''),
               entry (switch_at wal) (str ''Chain switch error: '' @ rpc_message err),
               entry (switch_at wal) (str ''Connection error: '' @ errorMessage)]"
    using m oth(6) oth(7) by blast
qed

theorem switch_failure_handling_witness:
  "requests (connectWallet example_config (wallet_unknown_chain (Inr ()))
       (mounted True (str ''12:00:00'')))
     = [Eth_chainId, Wallet_switchEthereumChain (str ''0x38''),
        Wallet_addEthereumChain example_config, Eth_requestAccounts]
   \<and> isConnected (connectWallet example_config (wallet_unknown_chain (Inr ()))
       (mounted True (str ''12:00:00'')))
   \<and> requests (connectWallet example_config (wallet_unknown_chain (Inl NotAnObject))
       (mounted True (str ''12:00:00'')))
     = [Eth_chainId, Wallet_switchEthereumChain (str ''0x38''),
        Wallet_addEthereumChain example_config]
   \<and> toasts (connectWallet example_config (wallet_unknown_chain (Inl NotAnObject))
       (mounted True (str ''12:00:00'')))
     = [(Toast_error, str ''Error connecting wallet'')]
   \<and> requests (connectWallet example_config wallet_refuses_switch
       (mounted True (str ''12:00:00'')))
     = [Eth_chainId, Wallet_switchEthereumChain (str ''0x38'')]
   \<and> toasts (connectWallet example_config wallet_refuses_switch
       (mounted True (str ''12:00:00'')))
     = [(Toast_error, str ''Connection rejected by user'')]
   \<and> \<not> isConnected (connectWallet example_config wallet_refuses_switch
       (mounted True (str ''12:00:00'')))"
proof -
  have eth: "ethereum (mounted True (str ''12:00:00''))"
    by (simp add: mounted_def)
  have a: "chainId_reply (wallet_unknown_chain added) = Inr (str ''0x1'')"
    "switch_reply (wallet_unknown_chain added)
       = Inl \<lparr>rpc_code = 4902, rpc_message = str ''Unrecognized chain ID''\<rparr>" for added
    by (simp_all add: wallet_unknown_chain_def)
  have r: "chainId_reply wallet_refuses_switch = Inr (str ''0x1'')"
    "switch_reply wallet_refuses_switch
       = Inl \<lparr>rpc_code = 4001, rpc_message = str ''User rejected the request.''\<rparr>"
    by (simp_all add: wallet_refuses_switch_def)
  show ?thesis
    using switch_failure_handling [OF eth a(1) example_chain_differs a(2), of "Inr ()"]
      switch_failure_handling [OF eth a(1) example_chain_differs a(2), of "Inl NotAnObject"]
      switch_failure_handling [OF eth r(1) example_chain_differs r(2)]
    by (simp add: wallet_unknown_chain_def mounted_def refused_switch_message)
      (simp add: example_config_def)
qed

text \<open>
  C5 as stated fails: after code 4902 the add-chain request can be rejected, and then the
  flow does not continue: no account is requested and the session stays disconnected.
\<close>

theorem add_chain_rejected_aborts:
  "requests (connectWallet example_config (wallet_unknown_chain (Inl NotAnObject))
       (mounted True (str ''12:00:00'')))
     = [Eth_chainId, Wallet_switchEthereumChain (str ''0x38''),
        Wallet_addEthereumChain example_config]
   \<and> \<not> isConnected (connectWallet example_config (wallet_unknown_chain (Inl NotAnObject))
       (mounted True (str ''12:00:00'')))
   \<and> longTradeContract (connectWallet example_config (wallet_unknown_chain (Inl NotAnObject))
       (mounted True (str ''12:00:00''))) = None"
proof -
  have eth: "ethereum (mounted True (str ''12:00:00''))"
    by (simp add: mounted_def)
  have a: "chainId_reply (wallet_unknown_chain (Inl NotAnObject)) = Inr (str ''0x1'')"
    "switch_reply (wallet_unknown_chain (Inl NotAnObject))
       = Inl \<lparr>rpc_code = 4902, rpc_message = str ''Unrecognized chain ID''\<rparr>"
    "add_reply (wallet_unknown_chain (Inl NotAnObject)) = Inl NotAnObject"
    by (simp_all add: wallet_unknown_chain_def)
  show ?thesis
    using connectWallet_add_rejected [OF eth a(1) example_chain_differs a(2) _ a(3)]
    by (simp add: mounted_def example_config_def)
qed

end
